theory Spec2Isabelle
  imports Main
begin

section \<open>Data model (shared/schema.ts)\<close>

text \<open>
  Every table of the schema is a list of rows in insertion order; a row is a record with
  one field per column. Columns of type \<open>varchar\<close>, \<open>text\<close> and \<open>decimal\<close> are strings, as
  the row types inferred by the ORM have them; \<open>integer\<close> columns are integers; a nullable
  column is an \<open>option\<close>; a \<open>timestamp\<close> is a number of milliseconds.
  Field names carry a prefix naming the table, since two records cannot share a field
  name.
\<close>

record user =
  u_id :: string
  u_email :: string
  u_password :: string
  u_name :: string
  u_role :: string
  u_createdAt :: "int option"

record product =
  p_id :: string
  p_name :: string
  p_description :: string
  p_price :: string
  p_imageUrl :: string
  p_type :: string
  p_ageRange :: string
  p_category :: string
  p_stock :: "int option"
  p_isActive :: bool
  p_createdAt :: "int option"

record order =
  o_id :: string
  o_userId :: "string option"
  o_total :: string
  o_status :: string
  o_customerName :: string
  o_customerEmail :: string
  o_customerPhone :: string
  o_shippingAddress :: string
  o_createdAt :: "int option"

record orderItem =
  oi_id :: string
  oi_orderId :: string
  oi_productId :: string
  oi_quantity :: int
  oi_price :: string

record passwordResetToken =
  t_id :: string
  t_userId :: string
  t_token :: string
  t_expiresAt :: int
  t_createdAt :: "int option"

text \<open>
  \<open>insertOrderSchema\<close> is the insert schema of \<open>orders\<close> without \<open>id\<close>, \<open>userId\<close> and
  \<open>createdAt\<close>: the status stays, and is optional because the column has a default.
  \<open>insertOrderItemSchema\<close> omits \<open>id\<close> only, so a line carries an order id, a product id,
  a quantity and a price.
\<close>

record InsertOrder =
  io_total :: string
  io_status :: "string option"
  io_customerName :: string
  io_customerEmail :: string
  io_customerPhone :: string
  io_shippingAddress :: string

record InsertOrderItem =
  ioi_orderId :: string
  ioi_productId :: string
  ioi_quantity :: int
  ioi_price :: string



text \<open>\<open>OrderWithItems\<close>: an order together with its items, each item with its product.\<close>

record OrderWithItems =
  owi_order :: order
  owi_items :: "(orderItem \<times> product) list"

record db =
  users :: "user list"
  products :: "product list"
  orders :: "order list"
  orderItems :: "orderItem list"
  passwordResetTokens :: "passwordResetToken list"

text \<open>
  The store checks what the schema declares. A value is converted to the type of its
  column when a statement writes it: an \<open>integer\<close> column takes the integers of 32 bits
  and refuses any other, and a \<open>decimal(10, 2)\<close> column takes a string, refuses it when it
  is no number or has too many digits, and otherwise keeps the number rounded to two
  decimals, which is what a later read, and \<open>returning()\<close>, give back. The conversion of a
  string by a \<open>decimal(10, 2)\<close> column belongs to the store, not to this repository: it is
  the parameter \<open>numeric\<close> of the operations that write such a column, \<open>None\<close> for a string
  the store refuses. A refused value is the error \<open>DataException\<close>, and the statement
  writes nothing. After the values, the references of the row are checked
  (\<open>references(() => ...)\<close>), and a \<open>unique()\<close> column before them.

  The generated keys (\<open>gen_random_uuid()\<close>) are an input of the operations: \<open>uuid k\<close> is
  the k-th key generated during a call. Keys are taken not to collide, so the primary-key
  check of an insert is not part of the model. An update that sets no column is refused
  before it reaches a row (\<open>EmptyUpdate\<close>).
\<close>

datatype db_error = DataException | ForeignKeyViolation | UniqueViolation | EmptyUpdate

definition int4 :: "int \<Rightarrow> bool" where
  "int4 n = (- 2147483648 \<le> n \<and> n \<le> 2147483647)"

section \<open>Storage operations (server/storage.ts)\<close>

definition getUser :: "db \<Rightarrow> string \<Rightarrow> user option" where
  "getUser d i = find (\<lambda>u. u_id u = i) (users d)"

definition getProduct :: "db \<Rightarrow> string \<Rightarrow> product option" where
  "getProduct d i = find (\<lambda>p. p_id p = i) (products d)"

text \<open>The join of the three order queries: the items of an order, each with its product.\<close>

definition itemsOf :: "db \<Rightarrow> order \<Rightarrow> (orderItem \<times> product) list" where
  "itemsOf d ord =
     concat (map (\<lambda>it. map (\<lambda>p. (it, p)) (filter (\<lambda>p. oi_productId it = p_id p) (products d)))
                 (filter (\<lambda>it. oi_orderId it = o_id ord) (orderItems d)))"

definition getOrder :: "db \<Rightarrow> string \<Rightarrow> OrderWithItems option" where
  "getOrder d i =
     (case find (\<lambda>ord. o_id ord = i) (orders d) of
        None \<Rightarrow> None
      | Some ord \<Rightarrow> Some \<lparr>owi_order = ord, owi_items = itemsOf d ord\<rparr>)"

definition getUserOrders :: "db \<Rightarrow> string \<Rightarrow> OrderWithItems list" where
  "getUserOrders d userId =
     map (\<lambda>ord. \<lparr>owi_order = ord, owi_items = itemsOf d ord\<rparr>)
         (filter (\<lambda>ord. o_userId ord = Some userId) (orders d))"






text \<open>
  \<open>db.insert(orders).values(order).returning()\<close>: the row has the generated key, no
  owning user (the insert type has no \<open>userId\<close>), the total as the column keeps it, the
  status given or else the default of the column, and the time of the insert.
\<close>

definition orderRow :: "string \<Rightarrow> int \<Rightarrow> InsertOrder \<Rightarrow> string \<Rightarrow> order" where
  "orderRow newId now ord tot =
     \<lparr> o_id = newId, o_userId = None, o_total = tot,
       o_status = (case io_status ord of None \<Rightarrow> ''pending'' | Some s \<Rightarrow> s),
       o_customerName = io_customerName ord,
       o_customerEmail = io_customerEmail ord,
       o_customerPhone = io_customerPhone ord,
       o_shippingAddress = io_shippingAddress ord,
       o_createdAt = Some now \<rparr>"

definition insertOrder ::
  "(string \<Rightarrow> string option) \<Rightarrow> string \<Rightarrow> int \<Rightarrow> db \<Rightarrow> InsertOrder \<Rightarrow> db_error + db \<times> order" where
  "insertOrder numeric newId now d ord =
     (case numeric (io_total ord) of
        None \<Rightarrow> Inl DataException
      | Some tot \<Rightarrow>
          let newOrder = orderRow newId now ord tot
          in Inr (d\<lparr>orders := orders d @ [newOrder]\<rparr>, newOrder))"

text \<open>
  The row of a line: \<open>{ ...item, orderId: newOrder.id }\<close> with its generated key and the
  price as the column keeps it.
\<close>

definition itemRow :: "string \<Rightarrow> string \<Rightarrow> InsertOrderItem \<Rightarrow> string \<Rightarrow> orderItem" where
  "itemRow newId orderId item price =
     \<lparr> oi_id = newId, oi_orderId = orderId, oi_productId = ioi_productId item,
       oi_quantity = ioi_quantity item, oi_price = price \<rparr>"

text \<open>
  \<open>db.insert(orderItems).values(...).returning()\<close>: the quantity and the price are
  converted, then both references are checked.
\<close>

definition insertOrderItem ::
  "(string \<Rightarrow> string option) \<Rightarrow> string \<Rightarrow> string \<Rightarrow> db \<Rightarrow> InsertOrderItem
     \<Rightarrow> db_error + db \<times> orderItem" where
  "insertOrderItem numeric newId orderId d item =
     (if \<not> int4 (ioi_quantity item) then Inl DataException
      else case numeric (ioi_price item) of
        None \<Rightarrow> Inl DataException
      | Some price \<Rightarrow>
          if orderId \<in> set (map o_id (orders d)) \<and>
             ioi_productId item \<in> set (map p_id (products d))
          then Inr (d\<lparr>orderItems := orderItems d @ [itemRow newId orderId item price]\<rparr>,
                    itemRow newId orderId item price)
          else Inl ForeignKeyViolation)"

text \<open>\<open>db.update(products).set({ stock: v }).where(eq(products.id, i))\<close>\<close>

definition updateProductStock :: "db \<Rightarrow> string \<Rightarrow> int \<Rightarrow> db_error + db" where
  "updateProductStock d i v =
     (if int4 v
      then Inr (d\<lparr>products := map (\<lambda>p. if p_id p = i then p\<lparr>p_stock := Some v\<rparr> else p)
                                     (products d)\<rparr>)
      else Inl DataException)"

text \<open>
  The body of the loop of \<open>createOrder\<close> for one line: insert the item, look the product
  up, and when it is found keep the item for the answer and decrement the stock of a
  physical product that has one. The answer is \<open>None\<close> for a line whose product is not
  found. An exception of the insert, or of the update of the stock, ends the call with
  the store as it is then.
\<close>

definition createOrderItem ::
  "(string \<Rightarrow> string option) \<Rightarrow> string \<Rightarrow> string \<Rightarrow> db \<Rightarrow> InsertOrderItem
     \<Rightarrow> db \<times> (db_error + (orderItem \<times> product) option)" where
  "createOrderItem numeric newId orderId d item =
     (case insertOrderItem numeric newId orderId d item of
        Inl e \<Rightarrow> (d, Inl e)
      | Inr (d1, orderItem) \<Rightarrow>
          (case getProduct d1 (ioi_productId item) of
             None \<Rightarrow> (d1, Inr None)
           | Some product \<Rightarrow>
               (if p_type product = ''physical'' \<and> p_stock product \<noteq> None
                then (case updateProductStock d1 (p_id product)
                             (the (p_stock product) - ioi_quantity item) of
                        Inl e \<Rightarrow> (d1, Inl e)
                      | Inr d2 \<Rightarrow> (d2, Inr (Some (orderItem, product))))
                else (d1, Inr (Some (orderItem, product))))))"

fun createOrderItems ::
  "(string \<Rightarrow> string option) \<Rightarrow> (nat \<Rightarrow> string) \<Rightarrow> nat \<Rightarrow> string \<Rightarrow> db \<Rightarrow> InsertOrderItem list
     \<Rightarrow> (orderItem \<times> product) list \<Rightarrow> db \<times> (db_error + (orderItem \<times> product) list)" where
  "createOrderItems numeric uuid k orderId d [] createdItems = (d, Inr createdItems)"
| "createOrderItems numeric uuid k orderId d (item # rest) createdItems =
     (case createOrderItem numeric (uuid k) orderId d item of
        (d1, Inl e) \<Rightarrow> (d1, Inl e)
      | (d1, Inr None) \<Rightarrow> createOrderItems numeric uuid (Suc k) orderId d1 rest createdItems
      | (d1, Inr (Some created)) \<Rightarrow>
          createOrderItems numeric uuid (Suc k) orderId d1 rest (createdItems @ [created]))"

definition createOrder ::
  "(string \<Rightarrow> string option) \<Rightarrow> (nat \<Rightarrow> string) \<Rightarrow> int \<Rightarrow> db \<Rightarrow> InsertOrder \<Rightarrow> InsertOrderItem list
     \<Rightarrow> db \<times> (db_error + OrderWithItems)" where
  "createOrder numeric uuid now d ord items =
     (case insertOrder numeric (uuid 0) now d ord of
        Inl e \<Rightarrow> (d, Inl e)
      | Inr (d1, newOrder) \<Rightarrow>
          (case createOrderItems numeric uuid 1 (o_id newOrder) d1 items [] of
             (d2, Inl e) \<Rightarrow> (d2, Inl e)
           | (d2, Inr createdItems) \<Rightarrow>
               (d2, Inr \<lparr>owi_order = newOrder, owi_items = createdItems\<rparr>)))"

text \<open>
  \<open>db.update(orders).set({ status }).where(eq(orders.id, id)).returning()\<close>: the first
  updated row, or \<open>undefined\<close> when no row has the id.
\<close>

definition updateOrderStatus :: "db \<Rightarrow> string \<Rightarrow> string \<Rightarrow> db \<times> order option" where
  "updateOrderStatus d i status =
     (let d1 = d\<lparr>orders := map (\<lambda>ord. if o_id ord = i then ord\<lparr>o_status := status\<rparr> else ord)
                                 (orders d)\<rparr>
      in (d1, find (\<lambda>ord. o_id ord = i) (orders d1)))"

definition updateUserPassword :: "db \<Rightarrow> string \<Rightarrow> string \<Rightarrow> db" where
  "updateUserPassword d userId newPassword =
     d\<lparr>users := map (\<lambda>u. if u_id u = userId then u\<lparr>u_password := newPassword\<rparr> else u)
                      (users d)\<rparr>"

text \<open>The expiry is one hour (\<open>60 * 60 * 1000\<close> ms) after the time of the call.\<close>

definition createPasswordRecoveryToken ::
  "string \<Rightarrow> int \<Rightarrow> db \<Rightarrow> string \<Rightarrow> string \<Rightarrow> db \<times> (db_error + unit)" where
  "createPasswordRecoveryToken newId now d userId token =
     (if token \<in> set (map t_token (passwordResetTokens d)) then (d, Inl UniqueViolation)
      else if userId \<notin> set (map u_id (users d)) then (d, Inl ForeignKeyViolation)
      else (d\<lparr>passwordResetTokens := passwordResetTokens d @
                [\<lparr> t_id = newId, t_userId = userId, t_token = token,
                   t_expiresAt = now + 60 * 60 * 1000, t_createdAt = Some now \<rparr>]\<rparr>,
            Inr ()))"

definition deletePasswordRecoveryToken :: "db \<Rightarrow> string \<Rightarrow> db" where
  "deletePasswordRecoveryToken d token =
     d\<lparr>passwordResetTokens := filter (\<lambda>r. t_token r \<noteq> token) (passwordResetTokens d)\<rparr>"

definition validatePasswordRecoveryToken :: "int \<Rightarrow> db \<Rightarrow> string \<Rightarrow> db \<times> string option" where
  "validatePasswordRecoveryToken now d token =
     (case find (\<lambda>r. t_token r = token) (passwordResetTokens d) of
        None \<Rightarrow> (d, None)
      | Some resetToken \<Rightarrow>
          (if t_expiresAt resetToken < now
           then (deletePasswordRecoveryToken d token, None)
           else (d, Some (t_userId resetToken))))"

section \<open>Routes (server/routes.ts)\<close>

text \<open>
  A handler takes the store and the parts of the request it reads, and gives the store
  after the request and the response: the status code and, where the claims need it, the
  payload. A field of a request body that is absent, or not of the type its schema asks
  for, is \<open>None\<close>.
\<close>

subsection \<open>The access gate\<close>

text \<open>
  The four errors \<open>authenticateAdmin\<close> throws, named by their messages:
  "No autorizado", "Token invalido", "Usuario no encontrado", "Acceso denegado".
\<close>

datatype auth_error = NoAutorizado | TokenInvalido | UsuarioNoEncontrado | AccesoDenegado

text \<open>\<open>s.replace(pat, rep)\<close> with a string pattern replaces the first occurrence.\<close>

fun replace :: "string \<Rightarrow> string \<Rightarrow> string \<Rightarrow> string" where
  "replace [] pat rep = (if pat = [] then rep else [])"
| "replace (c # cs) pat rep =
     (if take (length pat) (c # cs) = pat then rep @ drop (length pat) (c # cs)
      else c # replace cs pat rep)"

definition startsWith :: "string \<Rightarrow> string \<Rightarrow> bool" where
  "startsWith s pre = (take (length pre) s = pre)"

definition authenticateAdmin :: "db \<Rightarrow> string option \<Rightarrow> auth_error + user" where
  "authenticateAdmin d authHeader =
     (case authHeader of
        None \<Rightarrow> Inl NoAutorizado
      | Some h \<Rightarrow>
          if h = [] \<or> \<not> startsWith h ''Bearer '' then Inl NoAutorizado
          else let token = drop 7 h in
            if \<not> startsWith token ''mock_token_'' then Inl TokenInvalido
            else let userId = replace token ''mock_token_'' [] in
              (case getUser d userId of
                 None \<Rightarrow> Inl UsuarioNoEncontrado
               | Some u \<Rightarrow> if u_role u \<noteq> ''admin'' then Inl AccesoDenegado else Inr u))"

text \<open>
  The \<open>catch\<close> block every privileged route shares: 401 for the messages
  "No autorizado" and "Token invalido", 403 for "Acceso denegado", 500 for any other.
\<close>

fun errorStatus :: "auth_error \<Rightarrow> nat" where
  "errorStatus NoAutorizado = 401"
| "errorStatus TokenInvalido = 401"
| "errorStatus AccesoDenegado = 403"
| "errorStatus UsuarioNoEncontrado = 500"

text \<open>\<open>GET /api/auth/me\<close>, which resolves the same credential without the role check.\<close>

definition getAuthMe :: "db \<Rightarrow> string option \<Rightarrow> nat \<times> user option" where
  "getAuthMe d authHeader =
     (case authHeader of
        None \<Rightarrow> (401, None)
      | Some h \<Rightarrow>
          if h = [] \<or> \<not> startsWith h ''Bearer '' then (401, None)
          else let token = drop 7 h in
            if \<not> startsWith token ''mock_token_'' then (401, None)
            else let userId = replace token ''mock_token_'' [] in
              (case getUser d userId of
                 None \<Rightarrow> (401, None)
               | Some u \<Rightarrow> (200, Some u)))"

subsection \<open>Orders\<close>

text \<open>\<open>PUT /api/orders/:id/status\<close>; the body is \<open>{ status: z.string() }\<close>.\<close>

definition putOrderStatus ::
  "db \<Rightarrow> string option \<Rightarrow> string \<Rightarrow> string option \<Rightarrow> db \<times> nat \<times> order option" where
  "putOrderStatus d authHeader i bodyStatus =
     (case authenticateAdmin d authHeader of
        Inl e \<Rightarrow> (d, errorStatus e, None)
      | Inr _ \<Rightarrow>
          (case bodyStatus of
             None \<Rightarrow> (d, 400, None)
           | Some status \<Rightarrow>
               (case updateOrderStatus d i status of
                  (d1, None) \<Rightarrow> (d1, 404, None)
                | (d1, Some ord) \<Rightarrow> (d1, 200, Some ord))))"

text \<open>
  The body of \<open>POST /api/orders\<close>, before it is parsed. \<open>b_userId\<close> stands for a
  \<open>userId\<close> key sent by the client: the schema does not know it, and parsing strips it.
  The status is optional: it may be absent, a string, or a value that is no string, which
  the schema refuses.
\<close>

datatype 'a optional = Absent | IllTyped | Given 'a

record OrderItemBody =
  ib_orderId :: "string option"
  ib_productId :: "string option"
  ib_quantity :: "int option"
  ib_price :: "string option"

record OrderBody =
  b_userId :: "string option"
  b_total :: "string option"
  b_status :: "string optional"
  b_customerName :: "string option"
  b_customerEmail :: "string option"
  b_customerPhone :: "string option"
  b_shippingAddress :: "string option"
  b_items :: "OrderItemBody list option"

definition parseOrderItem :: "OrderItemBody \<Rightarrow> InsertOrderItem option" where
  "parseOrderItem ib =
     (case (ib_orderId ib, ib_productId ib, ib_quantity ib, ib_price ib) of
        (Some oid, Some pid, Some q, Some pr) \<Rightarrow>
          Some \<lparr> ioi_orderId = oid, ioi_productId = pid, ioi_quantity = q, ioi_price = pr \<rparr>
      | _ \<Rightarrow> None)"

definition parseOrder :: "OrderBody \<Rightarrow> (InsertOrder \<times> InsertOrderItem list) option" where
  "parseOrder b =
     (case (b_total b, b_customerName b, b_customerEmail b, b_customerPhone b,
            b_shippingAddress b, b_items b) of
        (Some tot, Some cn, Some ce, Some cp, Some sa, Some its) \<Rightarrow>
          (case b_status b of
             IllTyped \<Rightarrow> None
           | st \<Rightarrow>
               (case those (map parseOrderItem its) of
                  None \<Rightarrow> None
                | Some items \<Rightarrow>
                    Some (\<lparr> io_total = tot,
                            io_status = (case st of Given s \<Rightarrow> Some s | _ \<Rightarrow> None),
                            io_customerName = cn, io_customerEmail = ce,
                            io_customerPhone = cp, io_shippingAddress = sa \<rparr>, items)))
      | _ \<Rightarrow> None)"

text \<open>\<open>POST /api/orders\<close>: 201 with the order, or 400 for any exception.\<close>

definition postOrders ::
  "(string \<Rightarrow> string option) \<Rightarrow> (nat \<Rightarrow> string) \<Rightarrow> int \<Rightarrow> db \<Rightarrow> OrderBody
     \<Rightarrow> db \<times> nat \<times> OrderWithItems option" where
  "postOrders numeric uuid now d body =
     (case parseOrder body of
        None \<Rightarrow> (d, 400, None)
      | Some (orderData, items) \<Rightarrow>
          (case createOrder numeric uuid now d orderData items of
             (d1, Inl e) \<Rightarrow> (d1, 400, None)
           | (d1, Inr ord) \<Rightarrow> (d1, 201, Some ord)))"

subsection \<open>Password reset\<close>

text \<open>
  \<open>POST /api/auth/reset-password\<close>; the body is
  \<open>{ token: z.string(), newPassword: z.string().min(6) }\<close>. \<open>!userId\<close> holds for \<open>null\<close>
  and for the empty string.
\<close>

definition resetPassword :: "int \<Rightarrow> db \<Rightarrow> string option \<Rightarrow> string option \<Rightarrow> db \<times> nat" where
  "resetPassword now d bodyToken bodyNewPassword =
     (case (bodyToken, bodyNewPassword) of
        (Some token, Some newPassword) \<Rightarrow>
          if length newPassword < 6 then (d, 400)
          else (case validatePasswordRecoveryToken now d token of
                  (d1, None) \<Rightarrow> (d1, 400)
                | (d1, Some userId) \<Rightarrow>
                    if userId = [] then (d1, 400)
                    else (deletePasswordRecoveryToken
                            (updateUserPassword d1 userId newPassword) token, 200))
      | _ \<Rightarrow> (d, 400))"

section \<open>Vocabulary of the statements\<close>

text \<open>A line resolves when its product id is the id of a product of the store.\<close>

definition resolves :: "db \<Rightarrow> InsertOrderItem \<Rightarrow> bool" where
  "resolves d item = (getProduct d (ioi_productId item) \<noteq> None)"


text \<open>The total quantity a list of lines requests of one product.\<close>

definition qtyFor :: "string \<Rightarrow> InsertOrderItem list \<Rightarrow> int" where
  "qtyFor pid items =
     sum_list (map ioi_quantity (filter (\<lambda>it. ioi_productId it = pid) items))"

text \<open>A product row after \<open>n\<close> units were ordered.\<close>

definition decremented :: "int \<Rightarrow> product \<Rightarrow> product" where
  "decremented n p =
     (case p_stock p of
        None \<Rightarrow> p
      | Some s \<Rightarrow> if p_type p = ''physical'' then p\<lparr>p_stock := Some (s - n)\<rparr> else p)"

text \<open>
  The item rows of a list of lines, the first with the k-th generated key; \<open>None\<close> for a
  line whose price the column refuses.
\<close>

fun rowsOf ::
  "(string \<Rightarrow> string option) \<Rightarrow> (nat \<Rightarrow> string) \<Rightarrow> nat \<Rightarrow> string \<Rightarrow> InsertOrderItem list
     \<Rightarrow> orderItem option list" where
  "rowsOf numeric uuid k oid [] = []"
| "rowsOf numeric uuid k oid (it # its) =
     map_option (itemRow (uuid k) oid it) (numeric (ioi_price it))
       # rowsOf numeric uuid (Suc k) oid its"

text \<open>
  A line the columns of \<open>order_items\<close> accept, with a quantity that is not negative.
\<close>

definition acceptable :: "(string \<Rightarrow> string option) \<Rightarrow> InsertOrderItem \<Rightarrow> bool" where
  "acceptable numeric item =
     (0 \<le> ioi_quantity item \<and> ioi_quantity item \<le> 2147483647 \<and>
      numeric (ioi_price item) \<noteq> None)"

text \<open>
  The stock is sufficient for a request when every physical product with a numeric stock
  that a line names has at least the total quantity the request asks of it; the stock
  itself is a value of its column.
\<close>

definition sufficient :: "db \<Rightarrow> InsertOrderItem list \<Rightarrow> bool" where
  "sufficient d items =
     (\<forall>item \<in> set items. \<forall>p s.
        getProduct d (ioi_productId item) = Some p \<and> p_type p = ''physical'' \<and> p_stock p = Some s
          \<longrightarrow> qtyFor (ioi_productId item) items \<le> s \<and> s \<le> 2147483647)"

section \<open>An example store\<close>

definition exampleKit :: product where
  "exampleKit = \<lparr> p_id = ''p1'', p_name = ''Kit'', p_description = ''games'',
     p_price = ''100.00'', p_imageUrl = ''kit.png'', p_type = ''physical'',
     p_ageRange = ''3-8'', p_category = ''cognitive'', p_stock = Some 5,
     p_isActive = True, p_createdAt = None \<rparr>"

definition exampleCourse :: product where
  "exampleCourse = \<lparr> p_id = ''p2'', p_name = ''Course'', p_description = ''online'',
     p_price = ''50.00'', p_imageUrl = ''course.png'', p_type = ''digital'',
     p_ageRange = ''6-14'', p_category = ''emotional'', p_stock = None,
     p_isActive = True, p_createdAt = None \<rparr>"

definition exampleAdmin :: user where
  "exampleAdmin = \<lparr> u_id = ''a1'', u_email = ''admin@example.com'', u_password = ''admin123'',
     u_name = ''Maria'', u_role = ''admin'', u_createdAt = None \<rparr>"

definition exampleUser :: user where
  "exampleUser = \<lparr> u_id = ''u1'', u_email = ''ana@example.com'', u_password = ''secret1'',
     u_name = ''Ana'', u_role = ''user'', u_createdAt = None \<rparr>"

definition exampleOrderRow :: order where
  "exampleOrderRow = \<lparr> o_id = ''o1'', o_userId = Some ''u1'', o_total = ''100.00'',
     o_status = ''delivered'', o_customerName = ''Ana'', o_customerEmail = ''ana@example.com'',
     o_customerPhone = ''555'', o_shippingAddress = ''Street 1'', o_createdAt = Some 0 \<rparr>"

text \<open>A token minted at time 0, so that it expires at 3600000.\<close>

definition exampleToken :: passwordResetToken where
  "exampleToken = \<lparr> t_id = ''t1'', t_userId = ''u1'', t_token = ''tok'',
     t_expiresAt = 3600000, t_createdAt = Some 0 \<rparr>"

definition exampleDb :: db where
  "exampleDb = \<lparr> users = [exampleAdmin, exampleUser], products = [exampleKit, exampleCourse],
     orders = [exampleOrderRow], orderItems = [], passwordResetTokens = [exampleToken] \<rparr>"

definition exampleOrder :: "string option \<Rightarrow> InsertOrder" where
  "exampleOrder st = \<lparr> io_total = ''1.00'', io_status = st, io_customerName = ''Ana'',
     io_customerEmail = ''ana@example.com'', io_customerPhone = ''555'',
     io_shippingAddress = ''Street 1'' \<rparr>"

definition exampleLine :: "string \<Rightarrow> int \<Rightarrow> InsertOrderItem" where
  "exampleLine pid q =
     \<lparr> ioi_orderId = ''any'', ioi_productId = pid, ioi_quantity = q, ioi_price = ''1.00'' \<rparr>"

text \<open>A request body that carries a \<open>userId\<close> key.\<close>

definition exampleBody :: OrderBody where
  "exampleBody = \<lparr> b_userId = Some ''u1'', b_total = Some ''1.00'', b_status = Absent,
     b_customerName = Some ''Ana'', b_customerEmail = Some ''ana@example.com'',
     b_customerPhone = Some ''555'', b_shippingAddress = Some ''Street 1'',
     b_items = Some [\<lparr> ib_orderId = Some ''any'', ib_productId = Some ''p1'',
                        ib_quantity = Some 2, ib_price = Some ''1.00'' \<rparr>] \<rparr>"

definition exampleUuid :: "nat \<Rightarrow> string" where
  "exampleUuid n = replicate (Suc n) CHR ''k''"

text \<open>
  The conversion of the examples: what a \<open>decimal(10, 2)\<close> column does to a plain decimal
  literal, that is an optional sign, digits, and an optional point with digits. The value
  is rounded half away from zero to two decimals, refused when it then has more than
  eight digits before the point, and printed with two decimals. The examples use no other
  form of number, and this conversion refuses them.
\<close>

definition isDigit :: "char \<Rightarrow> bool" where
  "isDigit c = (c \<in> set ''0123456789'')"

definition digitVal :: "char \<Rightarrow> nat" where
  "digitVal c = length (takeWhile (\<lambda>x. x \<noteq> c) ''0123456789'')"

fun digitsVal :: "string \<Rightarrow> nat \<Rightarrow> nat" where
  "digitsVal [] acc = acc"
| "digitsVal (c # cs) acc = digitsVal cs (10 * acc + digitVal c)"

definition showDigits :: "nat \<Rightarrow> string" where
  "showDigits n =
     (let ds = map (\<lambda>i. ''0123456789'' ! ((n div 10 ^ i) mod 10)) [7, 6, 5, 4, 3, 2, 1, 0];
          t = dropWhile (\<lambda>c. c = CHR ''0'') ds
      in if t = [] then ''0'' else t)"

definition exampleNumeric :: "string \<Rightarrow> string option" where
  "exampleNumeric s =
     (let neg = (take 1 s = ''-'');
          body = (if take 1 s = ''-'' \<or> take 1 s = ''+'' then drop 1 s else s);
          ip = takeWhile isDigit body;
          rest = dropWhile isDigit body;
          fp = (if rest = [] then Some []
                else if take 1 rest = ''.'' \<and> list_all isDigit (drop 1 rest) then Some (drop 1 rest)
                else None)
      in case fp of
           None \<Rightarrow> None
         | Some f \<Rightarrow>
             if ip = [] \<and> f = [] then None
             else
               let h = digitsVal (ip @ take 2 (f @ ''00'')) 0
                         + (if 5 \<le> digitVal (hd (drop 2 f @ ''0'')) then 1 else 0)
               in if 10 ^ 10 \<le> h then None
                  else Some ((if neg \<and> h \<noteq> 0 then ''-'' else [])
                             @ showDigits (h div 100) @ ''.''
                             @ [''0123456789'' ! ((h div 10) mod 10), ''0123456789'' ! (h mod 10)]))"

section \<open>Order creation\<close>

lemma find_map_id:
  assumes "\<And>x. P (f x) = P x"
  shows "find P (map f xs) = map_option f (find P xs)"
  using assms by (induction xs) auto

lemma getProduct_in_ids: "(getProduct d i \<noteq> None) = (i \<in> set (map p_id (products d)))"
  by (auto simp: getProduct_def find_None_iff)

lemma getProduct_id: "getProduct d i = Some p \<Longrightarrow> p_id p = i"
  by (auto simp: getProduct_def find_Some_iff)

lemma decremented_zero: "decremented 0 p = p"
  by (simp add: decremented_def split: option.splits)

lemma decremented_add: "decremented n (decremented m p) = decremented (m + n) p"
  by (simp add: decremented_def split: option.splits)

lemma qtyFor_Nil: "qtyFor q [] = 0"
  by (simp add: qtyFor_def)

lemma qtyFor_Cons:
  "qtyFor q (it # its) = (if ioi_productId it = q then ioi_quantity it else 0) + qtyFor q its"
  by (simp add: qtyFor_def)

lemma createOrderItem_refused:
  "\<not> int4 (ioi_quantity item) \<or> numeric (ioi_price item) = None \<Longrightarrow>
     createOrderItem numeric nid oid d item = (d, Inl DataException)"
  by (auto simp: createOrderItem_def insertOrderItem_def)

lemma createOrderItem_missing:
  "int4 (ioi_quantity item) \<Longrightarrow> numeric (ioi_price item) = Some pr \<Longrightarrow>
   getProduct d (ioi_productId item) = None \<Longrightarrow>
     createOrderItem numeric nid oid d item = (d, Inl ForeignKeyViolation)"
  using getProduct_in_ids [of d "ioi_productId item"]
  by (simp add: createOrderItem_def insertOrderItem_def)

lemma insertOrderItem_ok:
  assumes "int4 (ioi_quantity item)" and "numeric (ioi_price item) = Some pr"
      and "getProduct d (ioi_productId item) = Some p"
      and "oid \<in> set (map o_id (orders d))"
  shows "insertOrderItem numeric nid oid d item =
           Inr (d\<lparr>orderItems := orderItems d @ [itemRow nid oid item pr]\<rparr>, itemRow nid oid item pr)"
  using assms getProduct_in_ids [of d "ioi_productId item"]
  by (simp add: insertOrderItem_def)

lemma getProduct_orderItems [simp]:
  "getProduct (d\<lparr>orderItems := xs\<rparr>) q = getProduct d q"
  by (simp add: getProduct_def)

lemma createOrderItem_overflow:
  assumes "int4 (ioi_quantity item)" and "numeric (ioi_price item) = Some pr"
      and "getProduct d (ioi_productId item) = Some p"
      and "oid \<in> set (map o_id (orders d))"
      and "p_type p = ''physical''" and "p_stock p = Some s"
      and "\<not> int4 (s - ioi_quantity item)"
  shows "createOrderItem numeric nid oid d item =
           (d\<lparr>orderItems := orderItems d @ [itemRow nid oid item pr]\<rparr>, Inl DataException)"
  using assms
  by (simp add: createOrderItem_def insertOrderItem_ok [where numeric = numeric, OF assms(1-4)] updateProductStock_def)

lemma createOrderItem_done:
  assumes "int4 (ioi_quantity item)" and "numeric (ioi_price item) = Some pr"
      and f: "getProduct d (ioi_productId item) = Some p"
      and "oid \<in> set (map o_id (orders d))"
      and r: "\<And>s. p_type p = ''physical'' \<Longrightarrow> p_stock p = Some s \<Longrightarrow> int4 (s - ioi_quantity item)"
  shows "\<exists>d'. createOrderItem numeric nid oid d item = (d', Inr (Some (itemRow nid oid item pr, p)))
           \<and> users d' = users d \<and> orders d' = orders d
           \<and> passwordResetTokens d' = passwordResetTokens d
           \<and> orderItems d' = orderItems d @ [itemRow nid oid item pr]
           \<and> (\<forall>q. getProduct d' q =
                    (if q = ioi_productId item then Some (decremented (ioi_quantity item) p)
                     else getProduct d q))"
proof -
  let ?d1 = "d\<lparr>orderItems := orderItems d @ [itemRow nid oid item pr]\<rparr>"
  note ins = insertOrderItem_ok [where numeric = numeric and nid = nid, OF assms(1-4)]
  have pid: "p_id p = ioi_productId item"
    using f by (rule getProduct_id)
  show ?thesis
  proof (cases "p_type p = ''physical'' \<and> p_stock p \<noteq> None")
    case True
    then obtain s where s: "p_stock p = Some s" by auto
    have i4: "int4 (s - ioi_quantity item)"
      using r True s by simp
    let ?f = "\<lambda>x. if p_id x = p_id p then x\<lparr>p_stock := Some (s - ioi_quantity item)\<rparr> else x"
    let ?d2 = "d\<lparr>orderItems := orderItems d @ [itemRow nid oid item pr],
                  products := map ?f (products d)\<rparr>"
    have c: "createOrderItem numeric nid oid d item = (?d2, Inr (Some (itemRow nid oid item pr, p)))"
      using True s f i4 by (simp add: createOrderItem_def ins updateProductStock_def)
    have "find (\<lambda>x. p_id x = q) (map ?f (products d)) = map_option ?f (find (\<lambda>x. p_id x = q) (products d))" for q
      by (rule find_map_id) simp
    then have g: "getProduct ?d2 q = map_option ?f (getProduct d q)" for q
      by (simp add: getProduct_def)
    have g2: "getProduct ?d2 q =
                (if q = ioi_productId item then Some (decremented (ioi_quantity item) p)
                 else getProduct d q)" for q
    proof (cases "q = ioi_productId item")
      case True
      then show ?thesis
        unfolding g using f s \<open>p_type p = ''physical'' \<and> p_stock p \<noteq> None\<close>
        by (simp add: decremented_def)
    next
      case False
      then show ?thesis
        unfolding g using pid getProduct_id [of d q]
        by (cases "getProduct d q") auto
    qed
    show ?thesis
      using c g2 by (intro exI [of _ ?d2]) simp
  next
    case False
    have c: "createOrderItem numeric nid oid d item = (?d1, Inr (Some (itemRow nid oid item pr, p)))"
      using False f by (auto simp: createOrderItem_def ins)
    have "decremented (ioi_quantity item) p = p"
      using False by (auto simp: decremented_def split: option.splits)
    then show ?thesis
      using c f by (intro exI [of _ ?d1]) auto
  qed
qed

text \<open>The three ways a line can end.\<close>

lemma createOrderItem_cases:
  assumes "oid \<in> set (map o_id (orders d))"
  obtains
    (refused) e where "createOrderItem numeric nid oid d item = (d, Inl e)"
  | (overflow) pr where "numeric (ioi_price item) = Some pr" and "resolves d item"
      and "createOrderItem numeric nid oid d item =
         (d\<lparr>orderItems := orderItems d @ [itemRow nid oid item pr]\<rparr>, Inl DataException)"
  | (completed) pr p d' where "numeric (ioi_price item) = Some pr"
      and "getProduct d (ioi_productId item) = Some p"
      and "createOrderItem numeric nid oid d item = (d', Inr (Some (itemRow nid oid item pr, p)))"
      and "users d' = users d" and "orders d' = orders d"
      and "passwordResetTokens d' = passwordResetTokens d"
      and "orderItems d' = orderItems d @ [itemRow nid oid item pr]"
      and "\<And>q. getProduct d' q =
              (if q = ioi_productId item then Some (decremented (ioi_quantity item) p)
               else getProduct d q)"
proof (cases "int4 (ioi_quantity item) \<and> numeric (ioi_price item) \<noteq> None")
  case False
  then show ?thesis
    using createOrderItem_refused [of item numeric nid oid d] refused by blast
next
  case True
  then obtain pr where q: "int4 (ioi_quantity item)" and pr: "numeric (ioi_price item) = Some pr"
    by auto
  show ?thesis
  proof (cases "getProduct d (ioi_productId item)")
    case None
    then show ?thesis
      using createOrderItem_missing [where numeric = numeric, OF q pr] refused by blast
  next
    case (Some p)
    show ?thesis
    proof (cases "\<exists>s. p_type p = ''physical'' \<and> p_stock p = Some s \<and> \<not> int4 (s - ioi_quantity item)")
      case True
      then obtain s where "p_type p = ''physical''" "p_stock p = Some s"
          "\<not> int4 (s - ioi_quantity item)"
        by blast
      from createOrderItem_overflow [where numeric = numeric, OF q pr Some assms this]
      show ?thesis
        using overflow [OF pr] Some by (simp add: resolves_def)
    next
      case False
      then have "\<And>s. p_type p = ''physical'' \<Longrightarrow> p_stock p = Some s \<Longrightarrow> int4 (s - ioi_quantity item)"
        by blast
      from createOrderItem_done [where numeric = numeric and nid = nid, OF q pr Some assms this]
      show ?thesis
        using completed [OF pr Some] by blast
    qed
  qed
qed

lemma createOrderItems_char:
  assumes "oid \<in> set (map o_id (orders d))"
  shows "\<exists>d' r n m rows.
           createOrderItems numeric uuid k oid d items acc = (d', r)
         \<and> users d' = users d \<and> orders d' = orders d
         \<and> passwordResetTokens d' = passwordResetTokens d
         \<and> n \<le> length items \<and> (m = n \<or> Suc m = n)
         \<and> orderItems d' = orderItems d @ rows
         \<and> map Some rows = rowsOf numeric uuid k oid (take n items)
         \<and> (\<forall>item \<in> set (take n items). resolves d item)
         \<and> (\<forall>q. getProduct d' q =
                  map_option (decremented (qtyFor q (take m items))) (getProduct d q))
         \<and> (\<forall>res. r = Inr res \<longrightarrow>
               n = length items \<and> m = n \<and> (\<exists>created. res = acc @ created \<and> map fst created = rows))"
  using assms
proof (induction items arbitrary: d k acc)
  case Nil
  show ?case
    by (rule exI [of _ d], rule exI [of _ "Inr acc"], rule exI [of _ 0], rule exI [of _ 0],
        rule exI [of _ "[]"])
       (simp add: qtyFor_Nil decremented_zero option.map_ident cong: option.map_cong)
next
  case (Cons item rest)
  show ?case
    using Cons.prems
  proof (cases rule: createOrderItem_cases [where numeric = numeric and nid = "uuid k" and item = item])
    case (refused e)
    then have "createOrderItems numeric uuid k oid d (item # rest) acc = (d, Inl e)"
      by simp
    then show ?thesis
      by (intro exI [of _ d] exI [of _ "Inl e"] exI [of _ 0] exI [of _ "[]"])
         (simp add: qtyFor_Nil decremented_zero option.map_ident cong: option.map_cong)
  next
    case (overflow pr)
    let ?d1 = "d\<lparr>orderItems := orderItems d @ [itemRow (uuid k) oid item pr]\<rparr>"
    have "createOrderItems numeric uuid k oid d (item # rest) acc = (?d1, Inl DataException)"
      using overflow by simp
    then show ?thesis
      using overflow(1,2)
      by (intro exI [of _ ?d1] exI [of _ "Inl DataException"] exI [of _ "Suc 0"] exI [of _ 0]
            exI [of _ "[itemRow (uuid k) oid item pr]"])
         (simp add: qtyFor_Nil decremented_zero option.map_ident cong: option.map_cong)
  next
    case (completed pr p d1)
    have r: "resolves d1 = resolves d"
      using completed(8) completed(2) by (auto simp: resolves_def fun_eq_iff)
    have o1: "oid \<in> set (map o_id (orders d1))"
      using Cons.prems completed(5) by simp
    let ?row = "itemRow (uuid k) oid item pr"
    from Cons.IH [OF o1, of "Suc k" "acc @ [(?row, p)]"]
    obtain d2 res n m rows where
      l: "createOrderItems numeric uuid (Suc k) oid d1 rest (acc @ [(?row, p)]) = (d2, res)"
      and fr: "users d2 = users d1" "orders d2 = orders d1"
              "passwordResetTokens d2 = passwordResetTokens d1"
      and nm: "n \<le> length rest" "m = n \<or> Suc m = n"
      and i2: "orderItems d2 = orderItems d1 @ rows"
      and rw: "map Some rows = rowsOf numeric uuid (Suc k) oid (take n rest)"
      and rs: "\<forall>item \<in> set (take n rest). resolves d item"
      and g2: "\<And>q. getProduct d2 q =
                 map_option (decremented (qtyFor q (take m rest))) (getProduct d1 q)"
      and ok: "\<And>x. res = Inr x \<Longrightarrow>
                 n = length rest \<and> m = n \<and> (\<exists>created. x = (acc @ [(?row, p)]) @ created \<and> map fst created = rows)"
      unfolding r by blast
    have res0: "resolves d item"
      using completed(2) by (simp add: resolves_def)
    have run: "createOrderItems numeric uuid k oid d (item # rest) acc = (d2, res)"
      using completed(3) l by simp
    have gp: "getProduct d2 q =
                map_option (decremented (qtyFor q (take (Suc m) (item # rest)))) (getProduct d q)" for q
      using completed(2)
      by (cases "getProduct d q") (auto simp: g2 completed(8) qtyFor_Cons decremented_add)
    have okk: "res = Inr x \<Longrightarrow>
                 Suc n = length (item # rest) \<and> Suc m = Suc n
                 \<and> (\<exists>created. x = acc @ created \<and> map fst created = ?row # rows)" for x
    proof -
      assume "res = Inr x"
      from ok [OF this] obtain created where
        "n = length rest" "m = n" "x = (acc @ [(?row, p)]) @ created" "map fst created = rows"
        by blast
      then show ?thesis
        by (intro conjI exI [of _ "(?row, p) # created"]) simp_all
    qed
    show ?thesis
      apply (rule exI [of _ d2], rule exI [of _ res], rule exI [of _ "Suc n"],
             rule exI [of _ "Suc m"], rule exI [of _ "?row # rows"])
      using run fr completed(4-7) nm i2 rw rs res0 gp okk completed(1)
      by auto
  qed
qed

lemma createOrder_char:
  "\<exists>d' r n m rows.
     createOrder numeric uuid now d ord items = (d', r)
   \<and> users d' = users d \<and> passwordResetTokens d' = passwordResetTokens d
   \<and> (case numeric (io_total ord) of
         None \<Rightarrow> d' = d \<and> r = Inl DataException
       | Some t \<Rightarrow> orders d' = orders d @ [orderRow (uuid 0) now ord t]
                  \<and> (\<forall>res. r = Inr res \<longrightarrow> owi_order res = orderRow (uuid 0) now ord t))
   \<and> n \<le> length items \<and> (m = n \<or> Suc m = n)
   \<and> orderItems d' = orderItems d @ rows
   \<and> map Some rows = rowsOf numeric uuid 1 (uuid 0) (take n items)
   \<and> (\<forall>item \<in> set (take n items). resolves d item)
   \<and> (\<forall>q. getProduct d' q =
            map_option (decremented (qtyFor q (take m items))) (getProduct d q))
   \<and> (\<forall>res. r = Inr res \<longrightarrow> n = length items \<and> m = n \<and> map fst (owi_items res) = rows)"
proof (cases "numeric (io_total ord)")
  case None
  then have "createOrder numeric uuid now d ord items = (d, Inl DataException)"
    by (simp add: createOrder_def insertOrder_def)
  then show ?thesis
    using None
    by (intro exI [of _ d] exI [of _ "Inl DataException"] exI [of _ 0] exI [of _ "[]"])
       (simp add: qtyFor_Nil decremented_zero option.map_ident cong: option.map_cong)
next
  case (Some t)
  let ?o = "orderRow (uuid 0) now ord t"
  let ?d1 = "d\<lparr>orders := orders d @ [?o]\<rparr>"
  have oid: "o_id ?o \<in> set (map o_id (orders ?d1))"
    by simp
  have oi: "o_id ?o = uuid 0"
    by (simp add: orderRow_def)
  have r: "resolves ?d1 = resolves d"
    by (simp add: resolves_def getProduct_def fun_eq_iff)
  have g: "getProduct ?d1 q = getProduct d q" for q
    by (simp add: getProduct_def)
  from createOrderItems_char [OF oid, of numeric uuid 1 items "[]"]
  obtain d' res n m rows where
    l: "createOrderItems numeric uuid 1 (o_id ?o) ?d1 items [] = (d', res)"
    and fr0: "users d' = users ?d1" "orders d' = orders ?d1"
             "passwordResetTokens d' = passwordResetTokens ?d1"
    and nm: "n \<le> length items" "m = n \<or> Suc m = n"
    and i0: "orderItems d' = orderItems ?d1 @ rows"
    and rw0: "map Some rows = rowsOf numeric uuid 1 (o_id ?o) (take n items)"
    and rs0: "\<forall>item \<in> set (take n items). resolves ?d1 item"
    and gp0: "\<forall>q. getProduct d' q =
               map_option (decremented (qtyFor q (take m items))) (getProduct ?d1 q)"
    and ok0: "\<forall>x. res = Inr x \<longrightarrow>
               n = length items \<and> m = n \<and> (\<exists>created. x = [] @ created \<and> map fst created = rows)"
    by (elim exE conjE)
  have fr: "users d' = users d" "orders d' = orders d @ [?o]"
           "passwordResetTokens d' = passwordResetTokens d"
    using fr0 by simp_all
  have i: "orderItems d' = orderItems d @ rows"
    using i0 by simp
  have rw: "map Some rows = rowsOf numeric uuid 1 (uuid 0) (take n items)"
    using rw0 by (simp only: oi)
  have rs: "\<forall>item \<in> set (take n items). resolves d item"
    using rs0 by (simp only: r)
  have gp: "getProduct d' q =
              map_option (decremented (qtyFor q (take m items))) (getProduct d q)" for q
    using gp0 by (simp only: g)
  have ok: "n = length items \<and> m = n \<and> map fst x = rows" if "res = Inr x" for x
    using ok0 that by auto
  let ?r = "case res of Inl e \<Rightarrow> Inl e
            | Inr createdItems \<Rightarrow> Inr \<lparr>owi_order = ?o, owi_items = createdItems\<rparr>"
  have run: "createOrder numeric uuid now d ord items = (d', ?r)"
    using l Some by (simp add: createOrder_def insertOrder_def Let_def split: sum.splits)
  have okk: "?r = Inr x \<Longrightarrow>
               owi_order x = ?o \<and> n = length items \<and> m = n \<and> map fst (owi_items x) = rows" for x
    using ok by (cases res) auto
  have tot: "case numeric (io_total ord) of
               None \<Rightarrow> d' = d \<and> ?r = Inl DataException
             | Some t \<Rightarrow> orders d' = orders d @ [orderRow (uuid 0) now ord t]
                        \<and> (\<forall>x. ?r = Inr x \<longrightarrow> owi_order x = orderRow (uuid 0) now ord t)"
    using Some fr(2) okk by simp
  have gpa: "\<forall>q. getProduct d' q =
               map_option (decremented (qtyFor q (take m items))) (getProduct d q)"
    using gp by blast
  have last: "\<forall>x. ?r = Inr x \<longrightarrow> n = length items \<and> m = n \<and> map fst (owi_items x) = rows"
    using okk by blast
  show ?thesis
    apply (rule exI [of _ d'], rule exI [of _ ?r], rule exI [of _ n], rule exI [of _ m],
           rule exI [of _ rows])
    using run fr(1,3) tot nm i rw rs gpa last by (intro conjI) assumption+
qed

lemma qtyFor_nonneg: "\<forall>item \<in> set items. 0 \<le> ioi_quantity item \<Longrightarrow> 0 \<le> qtyFor q items"
  by (induction items) (auto simp: qtyFor_Nil qtyFor_Cons)

lemma createOrderItems_succeeds:
  assumes "oid \<in> set (map o_id (orders d))"
      and "\<forall>item \<in> set items. acceptable numeric item \<and> resolves d item"
      and "sufficient d items"
  shows "\<exists>d' res. createOrderItems numeric uuid k oid d items acc = (d', Inr res)"
  using assms
proof (induction items arbitrary: d k acc)
  case Nil
  show ?case by simp
next
  case (Cons item rest)
  have acc0: "acceptable numeric item" and res0: "resolves d item"
    using Cons.prems(2) by simp_all
  obtain pr where q: "int4 (ioi_quantity item)" and q0: "0 \<le> ioi_quantity item"
    and pr: "numeric (ioi_price item) = Some pr"
    using acc0 by (auto simp: acceptable_def int4_def)
  obtain p where p: "getProduct d (ioi_productId item) = Some p"
    using res0 by (auto simp: resolves_def)
  have nn: "0 \<le> qtyFor x rest" for x
    using Cons.prems(2) by (intro qtyFor_nonneg) (simp add: acceptable_def)
  have suf: "ioi_quantity item + qtyFor (ioi_productId item) rest \<le> s \<and> s \<le> 2147483647"
    if "p_type p = ''physical''" "p_stock p = Some s" for s
    using Cons.prems(3) p that
    unfolding sufficient_def by (auto simp: qtyFor_Cons)
  have rng: "int4 (s - ioi_quantity item)" if "p_type p = ''physical''" "p_stock p = Some s" for s
    using suf [OF that] nn [of "ioi_productId item"] q0 by (simp add: int4_def)
  from createOrderItem_done [where numeric = numeric and nid = "uuid k", OF q pr p Cons.prems(1) rng]
  obtain d1 where
    c: "createOrderItem numeric (uuid k) oid d item = (d1, Inr (Some (itemRow (uuid k) oid item pr, p)))"
    and o: "orders d1 = orders d"
    and g: "\<And>x. getProduct d1 x =
              (if x = ioi_productId item then Some (decremented (ioi_quantity item) p)
               else getProduct d x)"
    by blast
  have r: "resolves d1 = resolves d"
    using g p by (auto simp: resolves_def fun_eq_iff)
  have o1: "oid \<in> set (map o_id (orders d1))"
    using Cons.prems(1) o by simp
  have a1: "\<forall>item \<in> set rest. acceptable numeric item \<and> resolves d1 item"
    using Cons.prems(2) r by simp
  have s1: "sufficient d1 rest"
    unfolding sufficient_def
  proof (intro ballI allI impI)
    fix it p' s'
    assume it: "it \<in> set rest"
      and h: "getProduct d1 (ioi_productId it) = Some p' \<and> p_type p' = ''physical'' \<and> p_stock p' = Some s'"
    show "qtyFor (ioi_productId it) rest \<le> s' \<and> s' \<le> 2147483647"
    proof (cases "ioi_productId it = ioi_productId item")
      case True
      then have p': "p' = decremented (ioi_quantity item) p"
        using h g by simp
      then obtain s where ph: "p_type p = ''physical''" and s: "p_stock p = Some s"
        and s': "s' = s - ioi_quantity item"
        using h by (auto simp: decremented_def split: option.splits if_splits)
      show ?thesis
        using suf [OF ph s] s' q0 True by simp
    next
      case False
      then have "getProduct d (ioi_productId it) = Some p'"
        using h g by simp
      then have "qtyFor (ioi_productId it) (item # rest) \<le> s' \<and> s' \<le> 2147483647"
        using Cons.prems(3) it h unfolding sufficient_def by auto
      then show ?thesis
        using False by (simp add: qtyFor_Cons)
    qed
  qed
  from Cons.IH [OF o1 a1 s1, of "Suc k" "acc @ [(itemRow (uuid k) oid item pr, p)]"]
  show ?case
    using c by simp
qed

lemma createOrder_succeeds:
  assumes "numeric (io_total ord) \<noteq> None"
      and "\<forall>item \<in> set items. acceptable numeric item \<and> resolves d item"
      and "sufficient d items"
  shows "\<exists>d' res. createOrder numeric uuid now d ord items = (d', Inr res)"
proof -
  obtain t where t: "numeric (io_total ord) = Some t"
    using assms(1) by auto
  let ?o = "orderRow (uuid 0) now ord t"
  let ?d1 = "d\<lparr>orders := orders d @ [?o]\<rparr>"
  have g: "getProduct ?d1 q = getProduct d q" for q
    by (simp add: getProduct_def)
  have oid: "o_id ?o \<in> set (map o_id (orders ?d1))"
    by simp
  have a: "\<forall>item \<in> set items. acceptable numeric item \<and> resolves ?d1 item"
    using assms(2) by (simp add: resolves_def g)
  have s: "sufficient ?d1 items"
    using assms(3) by (simp add: sufficient_def g)
  from createOrderItems_succeeds [OF oid a s, of uuid 1 "[]"]
  show ?thesis
    using t by (auto simp: createOrder_def insertOrder_def Let_def)
qed

lemma rowsOf_fields:
  "map Some rows = rowsOf numeric uuid k oid lines \<Longrightarrow>
     length rows = length lines
     \<and> map oi_productId rows = map ioi_productId lines
     \<and> map oi_quantity rows = map ioi_quantity lines
     \<and> map (\<lambda>row. Some (oi_price row)) rows = map (\<lambda>item. numeric (ioi_price item)) lines"
proof (induction lines arbitrary: rows k)
  case Nil
  then show ?case by simp
next
  case (Cons item rest)
  then obtain row rows' where rows: "rows = row # rows'"
    by (cases rows) auto
  then have h: "Some row = map_option (itemRow (uuid k) oid item) (numeric (ioi_price item))"
    and t: "map Some rows' = rowsOf numeric uuid (Suc k) oid rest"
    using Cons.prems by simp_all
  from h obtain pr where "numeric (ioi_price item) = Some pr" "row = itemRow (uuid k) oid item pr"
    by (cases "numeric (ioi_price item)") auto
  then show ?case
    using Cons.IH [OF t] rows by (simp add: itemRow_def)
qed



lemmas example_defs =
  exampleDb_def exampleKit_def exampleCourse_def exampleAdmin_def exampleUser_def
  exampleOrderRow_def exampleToken_def exampleOrder_def exampleLine_def

lemmas numeric_defs = exampleNumeric_def isDigit_def digitVal_def showDigits_def Let_def

lemma exampleNumeric_values:
  "exampleNumeric ''1.00'' = Some ''1.00''"
  "exampleNumeric ''2.5'' = Some ''2.50''"
  "exampleNumeric ''1.005'' = Some ''1.01''"
  "exampleNumeric ''abc'' = None"
  by (simp_all add: numeric_defs)

lemmas createOrder_defs =
  createOrder_def insertOrder_def orderRow_def createOrderItem_def insertOrderItem_def
  itemRow_def getProduct_def updateProductStock_def exampleUuid_def int4_def Let_def
  exampleNumeric_values

lemma example_products:
  "getProduct exampleDb ''p1'' = Some exampleKit"
  "getProduct exampleDb ''p2'' = Some exampleCourse"
  "getProduct exampleDb ''zz'' = None"
  by (simp_all add: getProduct_def example_defs)

section \<open>The claims about order creation\<close>

text \<open>
  Claim C2, as stated: a request whose lines name existing products, and ask of a physical
  product no more than its stock, succeeds with one item for each line. It does not when
  a column refuses a value. In the example store a line asks 2147483648 units of the
  digital course: the quantity is no value of the \<open>integer\<close> column and the call fails.
  A line that asks -2147483647 units of the kit, which has 5, asks no more than the
  stock: the item is written, the new stock 2147483652 is refused, the call fails and the
  stock is still 5. A price or a total that is no number fails the call as well.
\<close>

theorem createOrder_items_and_stock_counterexample:
  "getProduct exampleDb ''p2'' = Some exampleCourse
   \<and> p_type exampleCourse = ''digital''
   \<and> snd (createOrder exampleNumeric exampleUuid 7 exampleDb (exampleOrder None)
            [exampleLine ''p2'' 2147483648]) = Inl DataException
   \<and> getProduct exampleDb ''p1'' = Some exampleKit
   \<and> p_type exampleKit = ''physical'' \<and> p_stock exampleKit = Some 5
   \<and> snd (createOrder exampleNumeric exampleUuid 7 exampleDb (exampleOrder None)
            [exampleLine ''p1'' (- 2147483647)]) = Inl DataException
   \<and> map oi_quantity (orderItems (fst (createOrder exampleNumeric exampleUuid 7 exampleDb
            (exampleOrder None) [exampleLine ''p1'' (- 2147483647)]))) = [- 2147483647]
   \<and> map p_stock (products (fst (createOrder exampleNumeric exampleUuid 7 exampleDb
            (exampleOrder None) [exampleLine ''p1'' (- 2147483647)]))) = [Some 5, None]
   \<and> snd (createOrder exampleNumeric exampleUuid 7 exampleDb (exampleOrder None)
            [(exampleLine ''p2'' 1)\<lparr>ioi_price := ''abc''\<rparr>]) = Inl DataException
   \<and> snd (createOrder exampleNumeric exampleUuid 7 exampleDb
            ((exampleOrder None)\<lparr>io_total := ''abc''\<rparr>) [exampleLine ''p2'' 1])
       = Inl DataException"
  by (simp add: createOrder_defs example_defs)

text \<open>
  Claim C2, amended. Take a request whose total its column accepts, and whose lines each
  have a price its column accepts, a quantity from 0 to 2147483647 and the id of a
  product of the store, and let every physical product with a numeric stock that a line
  names have at least the total quantity the request asks of it. Then the call succeeds,
  the order returned has one item for each line, these are the item rows the call adds
  to the store, and every physical product with a numeric stock has, after the call, its
  stock before the call minus the total quantity the lines request of it.
\<close>

theorem createOrder_items_and_stock:
  assumes "numeric (io_total ord) \<noteq> None"
      and "\<forall>item \<in> set items. acceptable numeric item \<and> getProduct d (ioi_productId item) \<noteq> None"
      and "sufficient d items"
  shows "\<exists>d' ord'. createOrder numeric uuid now d ord items = (d', Inr ord')
           \<and> length (owi_items ord') = length items
           \<and> orderItems d' = orderItems d @ map fst (owi_items ord')
           \<and> (\<forall>pid p s. getProduct d pid = Some p \<and> p_type p = ''physical'' \<and> p_stock p = Some s
                 \<longrightarrow> getProduct d' pid = Some (p\<lparr>p_stock := Some (s - qtyFor pid items)\<rparr>))"
proof -
  have a: "\<forall>item \<in> set items. acceptable numeric item \<and> resolves d item"
    using assms(2) by (simp add: resolves_def)
  from createOrder_succeeds [OF assms(1) a assms(3), of uuid now]
  obtain d0 res where ok: "createOrder numeric uuid now d ord items = (d0, Inr res)"
    by blast
  from createOrder_char [of numeric uuid now d ord items]
  obtain d' r n m rows where
    run: "createOrder numeric uuid now d ord items = (d', r)"
    and i: "orderItems d' = orderItems d @ rows"
    and rw: "map Some rows = rowsOf numeric uuid 1 (uuid 0) (take n items)"
    and gp: "\<forall>q. getProduct d' q =
               map_option (decremented (qtyFor q (take m items))) (getProduct d q)"
    and last: "\<forall>x. r = Inr x \<longrightarrow> n = length items \<and> m = n \<and> map fst (owi_items x) = rows"
    by (elim exE conjE)
  have e: "d' = d0" "r = Inr res"
    using ok run by simp_all
  then have nm: "n = length items" "m = n" and f: "map fst (owi_items res) = rows"
    using last by simp_all
  have "length rows = length items"
    using rowsOf_fields [OF rw] nm by simp
  then have len: "length (owi_items res) = length items"
    using f by (metis length_map)
  have st: "getProduct d' pid = Some (p\<lparr>p_stock := Some (s - qtyFor pid items)\<rparr>)"
    if "getProduct d pid = Some p" "p_type p = ''physical''" "p_stock p = Some s" for pid p s
    using gp that nm by (simp add: decremented_def)
  show ?thesis
    using run e len i f st by (intro exI [of _ d'] exI [of _ res]) simp
qed

theorem createOrder_items_and_stock_witness:
  "exampleNumeric (io_total (exampleOrder None)) \<noteq> None
   \<and> acceptable exampleNumeric (exampleLine ''p1'' 2)
   \<and> acceptable exampleNumeric (exampleLine ''p2'' 1)
   \<and> acceptable exampleNumeric (exampleLine ''p1'' 1)
   \<and> sufficient exampleDb [exampleLine ''p1'' 2, exampleLine ''p2'' 1, exampleLine ''p1'' 1]
   \<and> (\<exists>d' ord'. createOrder exampleNumeric exampleUuid 7 exampleDb (exampleOrder None)
                   [exampleLine ''p1'' 2, exampleLine ''p2'' 1, exampleLine ''p1'' 1] = (d', Inr ord')
         \<and> length (owi_items ord') = 3
         \<and> getProduct d' ''p1'' = Some (exampleKit\<lparr>p_stock := Some 2\<rparr>))"
proof -
  let ?items = "[exampleLine ''p1'' 2, exampleLine ''p2'' 1, exampleLine ''p1'' 1]"
  have t: "exampleNumeric (io_total (exampleOrder None)) \<noteq> None"
    by (simp add: exampleOrder_def exampleNumeric_values)
  have ac: "acceptable exampleNumeric (exampleLine ''p1'' 2)"
       "acceptable exampleNumeric (exampleLine ''p2'' 1)"
       "acceptable exampleNumeric (exampleLine ''p1'' 1)"
    by (simp_all add: acceptable_def exampleLine_def exampleNumeric_values)
  have h: "\<forall>item \<in> set ?items. acceptable exampleNumeric item
             \<and> getProduct exampleDb (ioi_productId item) \<noteq> None"
    using ac by (simp add: example_products) (simp add: exampleLine_def example_products)
  have s: "sufficient exampleDb ?items"
    by (simp add: sufficient_def qtyFor_def) (simp add: exampleLine_def example_products exampleKit_def exampleCourse_def)
  have k: "getProduct exampleDb ''p1'' = Some exampleKit \<and> p_type exampleKit = ''physical''
             \<and> p_stock exampleKit = Some 5"
    by (simp add: example_products exampleKit_def)
  have q: "qtyFor ''p1'' ?items = 3"
    by (simp add: qtyFor_def exampleLine_def)
  from createOrder_items_and_stock [OF t h s, of exampleUuid 7]
  obtain d' ord' where
    "createOrder exampleNumeric exampleUuid 7 exampleDb (exampleOrder None) ?items = (d', Inr ord')"
    "length (owi_items ord') = length ?items"
    "\<forall>pid p s. getProduct exampleDb pid = Some p \<and> p_type p = ''physical'' \<and> p_stock p = Some s
        \<longrightarrow> getProduct d' pid = Some (p\<lparr>p_stock := Some (s - qtyFor pid ?items)\<rparr>)"
    by blast
  then show ?thesis
    using t ac s k q by auto
qed















text \<open>
  Claim C4, as stated: the price of a persisted item is the catalog price of its product.
  In the example store the product costs 100.00, the line of the request says 1.00, and
  the item is persisted at 1.00.
\<close>

theorem createOrder_catalog_price_counterexample:
  "map oi_price (orderItems (fst (createOrder exampleNumeric exampleUuid 7 exampleDb
                                    (exampleOrder None) [exampleLine ''p1'' 2]))) = [''1.00'']
   \<and> map_option p_price (getProduct exampleDb ''p1'') = Some ''100.00''"
  by (simp add: createOrder_defs example_defs)

text \<open>
  Claim C4, amended. The item rows a call persists are those of the first n lines of the
  request, all of them when the call succeeds, and each has the product id and the
  quantity of its line and, as its frozen price, the price the caller sent for the line
  as the \<open>decimal(10, 2)\<close> column keeps it (rounded to two decimals). The price of the
  product is not read into the item. When the call succeeds, the items of the order
  returned are these rows.
\<close>

theorem createOrder_item_price_from_request:
  "\<exists>n rows. n \<le> length items
        \<and> orderItems (fst (createOrder numeric uuid now d ord items)) = orderItems d @ rows
        \<and> length rows = n
        \<and> map oi_productId rows = map ioi_productId (take n items)
        \<and> map oi_quantity rows = map ioi_quantity (take n items)
        \<and> map (\<lambda>row. Some (oi_price row)) rows = map (\<lambda>item. numeric (ioi_price item)) (take n items)
        \<and> (\<forall>r. snd (createOrder numeric uuid now d ord items) = Inr r \<longrightarrow>
               n = length items \<and> map fst (owi_items r) = rows)"
proof -
  from createOrder_char [of numeric uuid now d ord items]
  obtain d' r n m rows where
    run: "createOrder numeric uuid now d ord items = (d', r)"
    and nm: "n \<le> length items"
    and i: "orderItems d' = orderItems d @ rows"
    and rw: "map Some rows = rowsOf numeric uuid 1 (uuid 0) (take n items)"
    and last: "\<forall>x. r = Inr x \<longrightarrow> n = length items \<and> m = n \<and> map fst (owi_items x) = rows"
    by (elim exE conjE)
  note f = rowsOf_fields [OF rw]
  have len: "length rows = n"
    using f nm by simp
  show ?thesis
    apply (rule exI [of _ n], rule exI [of _ rows])
    using run nm i len f last by simp
qed

theorem createOrder_item_price_from_request_witness:
  "\<exists>rows. orderItems (fst (createOrder exampleNumeric exampleUuid 7 exampleDb (exampleOrder None)
                             [(exampleLine ''p1'' 2)\<lparr>ioi_price := ''2.5''\<rparr>])) = rows
        \<and> map oi_price rows = [''2.50'']
        \<and> exampleNumeric ''2.5'' = Some ''2.50''
        \<and> map_option p_price (getProduct exampleDb ''p1'') = Some ''100.00''"
proof -
  let ?items = "[(exampleLine ''p1'' 2)\<lparr>ioi_price := ''2.5''\<rparr>]"
  obtain res where s: "snd (createOrder exampleNumeric exampleUuid 7 exampleDb (exampleOrder None)
                             ?items) = Inr res"
    by (simp add: createOrder_defs example_defs)
  have e: "orderItems exampleDb = []"
    by (simp add: exampleDb_def)
  have c: "map_option p_price (getProduct exampleDb ''p1'') = Some ''100.00''"
    by (simp add: example_products exampleKit_def)
  from createOrder_item_price_from_request
         [where items = ?items and numeric = exampleNumeric and uuid = exampleUuid and now = 7
            and d = exampleDb and ord = "exampleOrder None"]
  obtain n rows where
    i: "orderItems (fst (createOrder exampleNumeric exampleUuid 7 exampleDb (exampleOrder None)
                        ?items)) = orderItems exampleDb @ rows"
    and pr: "map (\<lambda>row. Some (oi_price row)) rows
       = map (\<lambda>item. exampleNumeric (ioi_price item)) (take n ?items)"
    and all: "\<forall>r. snd (createOrder exampleNumeric exampleUuid 7 exampleDb (exampleOrder None) ?items) = Inr r
         \<longrightarrow> n = length ?items \<and> map fst (owi_items r) = rows"
    by (elim exE conjE)
  have n: "n = Suc 0"
    using all [rule_format, OF s] by simp
  have "map (\<lambda>row. Some (oi_price row)) rows = [Some ''2.50'']"
    using pr unfolding n by (simp add: exampleNumeric_values)
  then have "map the (map (\<lambda>row. Some (oi_price row)) rows) = map the [Some ''2.50'']"
    by (rule arg_cong)
  then have p: "map oi_price rows = [''2.50'']"
    by (simp add: comp_def)
  have "orderItems (fst (createOrder exampleNumeric exampleUuid 7 exampleDb (exampleOrder None)
                        ?items)) = rows"
    using i e by simp
  then show ?thesis
    using p c exampleNumeric_values(2) by (intro exI [of _ rows] conjI)
qed

text \<open>
  Claim C5, as stated: every order is persisted with the status \<open>pending\<close> and the total
  of the caller. In the example store a request that carries the status \<open>shipped\<close> is
  persisted as \<open>shipped\<close>, by the storage operation and through the route alike, and a
  request with the total 1.005 is persisted with the total 1.01.
\<close>

theorem createOrder_pending_counterexample:
  "map o_status (orders (fst (createOrder exampleNumeric exampleUuid 7 exampleDb
                                (exampleOrder (Some ''shipped'')) [exampleLine ''p1'' 2])))
     = [''delivered'', ''shipped'']
   \<and> map o_status (orders (fst (postOrders exampleNumeric exampleUuid 7 exampleDb
                                   (exampleBody\<lparr>b_status := Given ''shipped''\<rparr>))))
     = [''delivered'', ''shipped'']
   \<and> map o_status (orders exampleDb) = [''delivered'']
   \<and> map o_total (orders (fst (createOrder exampleNumeric exampleUuid 7 exampleDb
                                ((exampleOrder None)\<lparr>io_total := ''1.005''\<rparr>) [])))
     = [''100.00'', ''1.01'']"
  by (simp add: postOrders_def parseOrder_def parseOrderItem_def exampleBody_def
        createOrder_defs example_defs)

text \<open>
  Claim C5, amended. A call of \<open>createOrder\<close> whose total the \<open>decimal(10, 2)\<close> column
  accepts appends one order row; its status is the status of the request when the request
  carries one and \<open>pending\<close> otherwise, and its total is the total of the request as the
  column keeps it (rounded to two decimals), whatever the lines are. The order returned by
  a call that succeeds is this row. A call whose total the column refuses fails and
  writes nothing.
\<close>

theorem createOrder_header_status_total:
  "case numeric (io_total ord) of
     None \<Rightarrow> createOrder numeric uuid now d ord items = (d, Inl DataException)
   | Some t \<Rightarrow>
       (\<exists>newOrder. orders (fst (createOrder numeric uuid now d ord items)) = orders d @ [newOrder]
          \<and> o_status newOrder = (case io_status ord of None \<Rightarrow> ''pending'' | Some s \<Rightarrow> s)
          \<and> o_total newOrder = t
          \<and> (\<forall>r. snd (createOrder numeric uuid now d ord items) = Inr r \<longrightarrow> owi_order r = newOrder))"
proof -
  from createOrder_char [of numeric uuid now d ord items]
  obtain d' r where
    run: "createOrder numeric uuid now d ord items = (d', r)"
    and tot: "case numeric (io_total ord) of
                None \<Rightarrow> d' = d \<and> r = Inl DataException
              | Some t \<Rightarrow> orders d' = orders d @ [orderRow (uuid 0) now ord t]
                         \<and> (\<forall>res. r = Inr res \<longrightarrow> owi_order res = orderRow (uuid 0) now ord t)"
    by (elim exE conjE)
  show ?thesis
  proof (cases "numeric (io_total ord)")
    case None
    then show ?thesis
      using run tot by simp
  next
    case (Some t)
    then show ?thesis
      using run tot
      by (simp add: orderRow_def) 
  qed
qed

theorem createOrder_header_status_total_witness:
  "exampleNumeric (io_total ((exampleOrder None)\<lparr>io_total := ''1.005''\<rparr>)) = Some ''1.01''
   \<and> (\<exists>newOrder. orders (fst (createOrder exampleNumeric exampleUuid 7 exampleDb
                                 ((exampleOrder None)\<lparr>io_total := ''1.005''\<rparr>)
                                 [exampleLine ''p1'' 2])) = [exampleOrderRow, newOrder]
         \<and> o_status newOrder = ''pending''
         \<and> o_total newOrder = ''1.01'')
   \<and> exampleNumeric (io_total ((exampleOrder None)\<lparr>io_total := ''abc''\<rparr>)) = None
   \<and> createOrder exampleNumeric exampleUuid 7 exampleDb
        ((exampleOrder None)\<lparr>io_total := ''abc''\<rparr>) [exampleLine ''p1'' 2]
       = (exampleDb, Inl DataException)"
proof -
  let ?a = "(exampleOrder None)\<lparr>io_total := ''1.005''\<rparr>"
  let ?b = "(exampleOrder None)\<lparr>io_total := ''abc''\<rparr>"
  have ta: "exampleNumeric (io_total ?a) = Some ''1.01''"
    and tb: "exampleNumeric (io_total ?b) = None"
    by (simp_all add: exampleNumeric_values)
  have st: "io_status ?a = None"
    by (simp add: exampleOrder_def)
  have o: "orders exampleDb = [exampleOrderRow]"
    by (simp add: exampleDb_def)
  from createOrder_header_status_total
         [where numeric = exampleNumeric and ord = ?a and uuid = exampleUuid and now = 7
            and d = exampleDb and items = "[exampleLine ''p1'' 2]"]
  have a: "\<exists>newOrder. orders (fst (createOrder exampleNumeric exampleUuid 7 exampleDb ?a
                                 [exampleLine ''p1'' 2])) = [exampleOrderRow, newOrder]
         \<and> o_status newOrder = ''pending'' \<and> o_total newOrder = ''1.01''"
    unfolding ta by (auto simp: st o)
  from createOrder_header_status_total
         [where numeric = exampleNumeric and ord = ?b and uuid = exampleUuid and now = 7
            and d = exampleDb and items = "[exampleLine ''p1'' 2]"]
  have b: "createOrder exampleNumeric exampleUuid 7 exampleDb ?b [exampleLine ''p1'' 2]
             = (exampleDb, Inl DataException)"
    unfolding tb by simp
  show ?thesis
    using ta tb a b by blast
qed

section \<open>Order status\<close>

lemma map_unchanged: "(\<And>x. x \<in> set xs \<Longrightarrow> f x = x) \<Longrightarrow> map f xs = xs"
  by (induction xs) auto

lemma updateOrderStatus_found:
  assumes "find (\<lambda>x. o_id x = i) (orders d) = Some ord"
  shows "updateOrderStatus d i s =
           (d\<lparr>orders := map (\<lambda>x. if o_id x = i then x\<lparr>o_status := s\<rparr> else x) (orders d)\<rparr>,
            Some (ord\<lparr>o_status := s\<rparr>))"
proof -
  have "find (\<lambda>x. o_id x = i) (map (\<lambda>x. if o_id x = i then x\<lparr>o_status := s\<rparr> else x) (orders d))
          = map_option (\<lambda>x. if o_id x = i then x\<lparr>o_status := s\<rparr> else x)
              (find (\<lambda>x. o_id x = i) (orders d))"
    by (rule find_map_id) simp
  moreover have "o_id ord = i"
    using assms by (auto simp: find_Some_iff)
  ultimately show ?thesis
    using assms by (simp add: updateOrderStatus_def Let_def)
qed

lemma updateOrderStatus_missing:
  assumes "find (\<lambda>x. o_id x = i) (orders d) = None"
  shows "updateOrderStatus d i s = (d, None)"
proof -
  have n: "\<And>x. x \<in> set (orders d) \<Longrightarrow> o_id x \<noteq> i"
    using assms by (auto simp: find_None_iff)
  then have "map (\<lambda>x. if o_id x = i then x\<lparr>o_status := s\<rparr> else x) (orders d) = orders d"
    by (intro map_unchanged) auto
  then show ?thesis
    using assms by (simp add: updateOrderStatus_def Let_def)
qed

text \<open>
  Claim C7. \<open>updateOrderStatus\<close> with an id and any string: when an order has the id,
  the status of every row with the id becomes the string, no other row changes, and the
  updated order is returned; when none has, the answer is \<open>undefined\<close> and the store is
  unchanged. The route gives an administrator 200 with the order in the first case and
  404 in the second. The string is not compared with anything.
\<close>

theorem updateOrderStatus_unconditional:
  assumes "authenticateAdmin d h = Inr u"
  shows "updateOrderStatus d i s =
           (case find (\<lambda>x. o_id x = i) (orders d) of
              None \<Rightarrow> (d, None)
            | Some ord \<Rightarrow>
                (d\<lparr>orders := map (\<lambda>x. if o_id x = i then x\<lparr>o_status := s\<rparr> else x) (orders d)\<rparr>,
                 Some (ord\<lparr>o_status := s\<rparr>)))
         \<and> putOrderStatus d h i (Some s) =
           (case find (\<lambda>x. o_id x = i) (orders d) of
              None \<Rightarrow> (d, 404, None)
            | Some ord \<Rightarrow>
                (d\<lparr>orders := map (\<lambda>x. if o_id x = i then x\<lparr>o_status := s\<rparr> else x) (orders d)\<rparr>,
                 200, Some (ord\<lparr>o_status := s\<rparr>)))"
proof (cases "find (\<lambda>x. o_id x = i) (orders d)")
  case None
  then show ?thesis
    using assms by (simp add: putOrderStatus_def updateOrderStatus_missing)
next
  case (Some ord)
  then show ?thesis
    using assms by (simp add: putOrderStatus_def updateOrderStatus_found)
qed

theorem updateOrderStatus_unconditional_witness:
  "authenticateAdmin exampleDb (Some ''Bearer mock_token_a1'') = Inr exampleAdmin
   \<and> putOrderStatus exampleDb (Some ''Bearer mock_token_a1'') ''o1'' (Some ''pending'')
       = (exampleDb\<lparr>orders := [exampleOrderRow\<lparr>o_status := ''pending''\<rparr>]\<rparr>, 200,
          Some (exampleOrderRow\<lparr>o_status := ''pending''\<rparr>))
   \<and> putOrderStatus exampleDb (Some ''Bearer mock_token_a1'') ''o1'' (Some ''banana'')
       = (exampleDb\<lparr>orders := [exampleOrderRow\<lparr>o_status := ''banana''\<rparr>]\<rparr>, 200,
          Some (exampleOrderRow\<lparr>o_status := ''banana''\<rparr>))
   \<and> putOrderStatus exampleDb (Some ''Bearer mock_token_a1'') ''o9'' (Some ''shipped'')
       = (exampleDb, 404, None)
   \<and> updateOrderStatus exampleDb ''o9'' ''shipped'' = (exampleDb, None)"
proof -
  have a: "authenticateAdmin exampleDb (Some ''Bearer mock_token_a1'') = Inr exampleAdmin"
    by (simp add: authenticateAdmin_def startsWith_def getUser_def example_defs)
  have f1: "find (\<lambda>x. o_id x = ''o1'') (orders exampleDb) = Some exampleOrderRow"
    and f9: "find (\<lambda>x. o_id x = ''o9'') (orders exampleDb) = None"
    and o: "orders exampleDb = [exampleOrderRow]"
    and i: "o_id exampleOrderRow = ''o1''"
    by (simp_all add: exampleDb_def exampleOrderRow_def)
  show ?thesis
    using updateOrderStatus_unconditional [OF a, of "''o1''" "''pending''"]
          updateOrderStatus_unconditional [OF a, of "''o1''" "''banana''"]
          updateOrderStatus_unconditional [OF a, of "''o9''" "''shipped''"]
          a
    by (simp add: f1 f9 o i)
qed

section \<open>Password reset\<close>

lemma find_deleted:
  "find (\<lambda>r. t_token r = t) (passwordResetTokens (deletePasswordRecoveryToken d t)) = None"
  by (simp add: deletePasswordRecoveryToken_def find_None_iff)

lemma validate_absent:
  "find (\<lambda>r. t_token r = t) (passwordResetTokens d) = None \<Longrightarrow>
     validatePasswordRecoveryToken now d t = (d, None)"
  by (simp add: validatePasswordRecoveryToken_def)

lemma reset_absent:
  "find (\<lambda>r. t_token r = t) (passwordResetTokens d) = None \<Longrightarrow>
     resetPassword now d (Some t) pw = (d, 400)"
  by (simp add: resetPassword_def validate_absent split: option.splits)

lemma find_append_None: "find P xs = None \<Longrightarrow> find P (xs @ ys) = find P ys"
  by (induction xs) (auto split: if_splits)

lemma find_minted:
  assumes "createPasswordRecoveryToken nid T d0 uid t = (d, Inr ())"
  shows "find (\<lambda>r. t_token r = t) (passwordResetTokens d) =
           Some \<lparr> t_id = nid, t_userId = uid, t_token = t,
                  t_expiresAt = T + 3600000, t_createdAt = Some T \<rparr>"
proof -
  have n: "t \<notin> set (map t_token (passwordResetTokens d0))"
    and d: "d = d0\<lparr>passwordResetTokens := passwordResetTokens d0 @
                [\<lparr> t_id = nid, t_userId = uid, t_token = t,
                   t_expiresAt = T + 60 * 60 * 1000, t_createdAt = Some T \<rparr>]\<rparr>"
    using assms by (auto simp: createPasswordRecoveryToken_def split: if_splits)
  have "find (\<lambda>r. t_token r = t) (passwordResetTokens d0) = None"
    using n by (auto simp: find_None_iff)
  then show ?thesis
    by (simp add: d find_append_None)
qed

text \<open>
  Claim C8. For a request with a new password of at least six characters, in a store
  whose tokens belong to users with a non-empty id (ids are generated keys):
  a token that is not in the store is rejected and nothing changes; a token whose expiry
  is before the time of the call is deleted and rejected; any other token is accepted,
  the password of its user is replaced, the token is deleted, and every later request
  with the same token is rejected and changes nothing. The expiry of a token is one hour
  after it was created.
\<close>

theorem reset_token_single_use:
  assumes "6 \<le> length pw"
      and "\<forall>r \<in> set (passwordResetTokens d). t_userId r \<noteq> []"
  shows "(case find (\<lambda>r. t_token r = t) (passwordResetTokens d) of
            None \<Rightarrow>
              validatePasswordRecoveryToken now d t = (d, None)
              \<and> resetPassword now d (Some t) (Some pw) = (d, 400)
          | Some r \<Rightarrow>
              if t_expiresAt r < now
              then validatePasswordRecoveryToken now d t = (deletePasswordRecoveryToken d t, None)
                 \<and> resetPassword now d (Some t) (Some pw) = (deletePasswordRecoveryToken d t, 400)
                 \<and> t \<notin> set (map t_token (passwordResetTokens (deletePasswordRecoveryToken d t)))
              else validatePasswordRecoveryToken now d t = (d, Some (t_userId r))
                 \<and> (\<exists>d'. resetPassword now d (Some t) (Some pw) = (d', 200)
                       \<and> users d' = map (\<lambda>u. if u_id u = t_userId r then u\<lparr>u_password := pw\<rparr> else u)
                                        (users d)
                       \<and> t \<notin> set (map t_token (passwordResetTokens d'))
                       \<and> (\<forall>now' pw'. resetPassword now' d' (Some t) pw' = (d', 400))))
         \<and> (createPasswordRecoveryToken nid T d0 uid t = (d, Inr ()) \<longrightarrow>
               map_option t_expiresAt (find (\<lambda>r. t_token r = t) (passwordResetTokens d))
                 = Some (T + 3600000))"
proof (intro conjI impI)
  show "case find (\<lambda>r. t_token r = t) (passwordResetTokens d) of
            None \<Rightarrow>
              validatePasswordRecoveryToken now d t = (d, None)
              \<and> resetPassword now d (Some t) (Some pw) = (d, 400)
          | Some r \<Rightarrow>
              if t_expiresAt r < now
              then validatePasswordRecoveryToken now d t = (deletePasswordRecoveryToken d t, None)
                 \<and> resetPassword now d (Some t) (Some pw) = (deletePasswordRecoveryToken d t, 400)
                 \<and> t \<notin> set (map t_token (passwordResetTokens (deletePasswordRecoveryToken d t)))
              else validatePasswordRecoveryToken now d t = (d, Some (t_userId r))
                 \<and> (\<exists>d'. resetPassword now d (Some t) (Some pw) = (d', 200)
                       \<and> users d' = map (\<lambda>u. if u_id u = t_userId r then u\<lparr>u_password := pw\<rparr> else u)
                                        (users d)
                       \<and> t \<notin> set (map t_token (passwordResetTokens d'))
                       \<and> (\<forall>now' pw'. resetPassword now' d' (Some t) pw' = (d', 400)))"
  proof (cases "find (\<lambda>r. t_token r = t) (passwordResetTokens d)")
    case None
    then show ?thesis
      by (simp add: validate_absent reset_absent)
  next
    case (Some r)
    have rin: "r \<in> set (passwordResetTokens d)"
      using Some by (auto simp: find_Some_iff)
    then have uid: "t_userId r \<noteq> []"
      using assms(2) by blast
    show ?thesis
    proof (cases "t_expiresAt r < now")
      case True
      have v: "validatePasswordRecoveryToken now d t = (deletePasswordRecoveryToken d t, None)"
        using Some True by (simp add: validatePasswordRecoveryToken_def)
      have "resetPassword now d (Some t) (Some pw) = (deletePasswordRecoveryToken d t, 400)"
        using assms(1) by (simp add: resetPassword_def v)
      moreover have "t \<notin> set (map t_token (passwordResetTokens (deletePasswordRecoveryToken d t)))"
        by (auto simp: deletePasswordRecoveryToken_def)
      ultimately show ?thesis
        using Some True v by simp
    next
      case False
      let ?d' = "deletePasswordRecoveryToken (updateUserPassword d (t_userId r) pw) t"
      have v: "validatePasswordRecoveryToken now d t = (d, Some (t_userId r))"
        using Some False by (simp add: validatePasswordRecoveryToken_def)
      have run: "resetPassword now d (Some t) (Some pw) = (?d', 200)"
        using assms(1) uid by (simp add: resetPassword_def v)
      have u: "users ?d' = map (\<lambda>u. if u_id u = t_userId r then u\<lparr>u_password := pw\<rparr> else u) (users d)"
        by (simp add: deletePasswordRecoveryToken_def updateUserPassword_def)
      have g: "t \<notin> set (map t_token (passwordResetTokens ?d'))"
        by (auto simp: deletePasswordRecoveryToken_def)
      have again: "resetPassword now' ?d' (Some t) pw' = (?d', 400)" for now' pw'
        by (rule reset_absent) (rule find_deleted)
      show ?thesis
        using Some False v run u g again by simp
    qed
  qed
next
  assume "createPasswordRecoveryToken nid T d0 uid t = (d, Inr ())"
  from find_minted [OF this]
  show "map_option t_expiresAt (find (\<lambda>r. t_token r = t) (passwordResetTokens d))
          = Some (T + 3600000)"
    by simp
qed

theorem reset_token_single_use_witness:
  "createPasswordRecoveryToken ''t1'' 0 (exampleDb\<lparr>passwordResetTokens := []\<rparr>) ''u1'' ''tok''
     = (exampleDb, Inr ())
   \<and> map_option t_expiresAt (find (\<lambda>r. t_token r = ''tok'') (passwordResetTokens exampleDb))
       = Some 3600000
   \<and> resetPassword 3660000 exampleDb (Some ''tok'') (Some ''newpass1'')
       = (exampleDb\<lparr>passwordResetTokens := []\<rparr>, 400)
   \<and> resetPassword 1000 exampleDb (Some ''nope'') (Some ''newpass1'') = (exampleDb, 400)
   \<and> (\<exists>d'. resetPassword 3600000 exampleDb (Some ''tok'') (Some ''newpass1'') = (d', 200)
          \<and> users d' = [exampleAdmin, exampleUser\<lparr>u_password := ''newpass1''\<rparr>]
          \<and> resetPassword 3600000 d' (Some ''tok'') (Some ''another1'') = (d', 400))"
proof -
  have l: "6 \<le> length ''newpass1''"
    by simp
  have u: "\<forall>r \<in> set (passwordResetTokens exampleDb). t_userId r \<noteq> []"
    by (simp add: exampleDb_def exampleToken_def)
  have m: "createPasswordRecoveryToken ''t1'' 0 (exampleDb\<lparr>passwordResetTokens := []\<rparr>) ''u1'' ''tok''
             = (exampleDb, Inr ())"
    by (simp add: createPasswordRecoveryToken_def example_defs)
  have f: "find (\<lambda>r. t_token r = ''tok'') (passwordResetTokens exampleDb) = Some exampleToken"
    and n: "find (\<lambda>r. t_token r = ''nope'') (passwordResetTokens exampleDb) = None"
    by (simp_all add: exampleDb_def exampleToken_def)
  have e: "t_expiresAt exampleToken = 3600000" and i: "t_userId exampleToken = ''u1''"
    by (simp_all add: exampleToken_def)
  have del: "deletePasswordRecoveryToken exampleDb ''tok'' = exampleDb\<lparr>passwordResetTokens := []\<rparr>"
    by (simp add: deletePasswordRecoveryToken_def exampleDb_def exampleToken_def)
  have us: "map (\<lambda>u. if u_id u = ''u1'' then u\<lparr>u_password := ''newpass1''\<rparr> else u) (users exampleDb)
              = [exampleAdmin, exampleUser\<lparr>u_password := ''newpass1''\<rparr>]"
    by (simp add: exampleDb_def exampleAdmin_def exampleUser_def)
  have late: "resetPassword 3660000 exampleDb (Some ''tok'') (Some ''newpass1'')
               = (exampleDb\<lparr>passwordResetTokens := []\<rparr>, 400)"
    using reset_token_single_use [OF l u, where t = "''tok''" and now = 3660000 and nid = "''t1''" and T = 0
              and ?d0.0 = "exampleDb\<lparr>passwordResetTokens := []\<rparr>" and uid = "''u1''"]
    by (simp add: f e del)
  have absent: "resetPassword 1000 exampleDb (Some ''nope'') (Some ''newpass1'') = (exampleDb, 400)"
    using reset_token_single_use [OF l u, where t = "''nope''" and now = 1000 and nid = "''t1''" and T = 0
              and ?d0.0 = "exampleDb\<lparr>passwordResetTokens := []\<rparr>" and uid = "''u1''"]
    by (simp add: n)
  have once: "\<exists>d'. resetPassword 3600000 exampleDb (Some ''tok'') (Some ''newpass1'') = (d', 200)
          \<and> users d' = [exampleAdmin, exampleUser\<lparr>u_password := ''newpass1''\<rparr>]
          \<and> resetPassword 3600000 d' (Some ''tok'') (Some ''another1'') = (d', 400)"
    using reset_token_single_use [OF l u, where t = "''tok''" and now = 3600000 and nid = "''t1''" and T = 0
              and ?d0.0 = "exampleDb\<lparr>passwordResetTokens := []\<rparr>" and uid = "''u1''"]
    by (auto simp: f e i us)
  have window: "map_option t_expiresAt (find (\<lambda>r. t_token r = ''tok'') (passwordResetTokens exampleDb))
       = Some 3600000"
    using reset_token_single_use [OF l u, where t = "''tok''" and now = 3600000 and nid = "''t1''" and T = 0
              and ?d0.0 = "exampleDb\<lparr>passwordResetTokens := []\<rparr>" and uid = "''u1''"] m
    by simp
  show ?thesis
    using m window late absent once by blast
qed

section \<open>The access gate\<close>

lemma replace_prefix:
  "pat \<noteq> [] \<Longrightarrow> take (length pat) s = pat \<Longrightarrow> replace s pat rep = rep @ drop (length pat) s"
  by (cases s) auto

lemma startsWith_Bearer: "startsWith s ''Bearer '' = (take 7 s = ''Bearer '')"
proof -
  have "length ''Bearer '' = 7"
    by simp
  then show ?thesis
    unfolding startsWith_def by (simp only:)
qed

lemma startsWith_mock_token: "startsWith s ''mock_token_'' = (take 11 s = ''mock_token_'')"
proof -
  have "length ''mock_token_'' = 11"
    by simp
  then show ?thesis
    unfolding startsWith_def by (simp only:)
qed

lemma replace_mock_token:
  assumes "take 11 s = ''mock_token_''"
  shows "replace s ''mock_token_'' [] = drop 11 s"
proof -
  have len: "length ''mock_token_'' = 11"
    by simp
  have "take (length ''mock_token_'') s = ''mock_token_''"
    unfolding len by (rule assms)
  then have "replace s ''mock_token_'' [] = [] @ drop (length ''mock_token_'') s"
    by (intro replace_prefix) simp_all
  then show ?thesis
    unfolding len by simp
qed

lemma authenticateAdmin_outcomes:
  "authenticateAdmin d h =
     (case h of
        None \<Rightarrow> Inl NoAutorizado
      | Some s \<Rightarrow>
          if take 7 s \<noteq> ''Bearer '' then Inl NoAutorizado
          else if take 11 (drop 7 s) \<noteq> ''mock_token_'' then Inl TokenInvalido
          else (case getUser d (drop 18 s) of
                  None \<Rightarrow> Inl UsuarioNoEncontrado
                | Some u \<Rightarrow> if u_role u = ''admin'' then Inr u else Inl AccesoDenegado))"
proof (cases h)
  case None
  then show ?thesis by (simp add: authenticateAdmin_def)
next
  case (Some s)
  show ?thesis
  proof (cases "take 7 s = ''Bearer ''")
    case False
    then show ?thesis
      using Some by (simp add: authenticateAdmin_def startsWith_Bearer)
  next
    case True
    then have ne: "s \<noteq> []"
      by auto
    show ?thesis
    proof (cases "take 11 (drop 7 s) = ''mock_token_''")
      case False
      then show ?thesis
        using Some True ne
        by (simp add: authenticateAdmin_def startsWith_Bearer startsWith_mock_token)
    next
      case t: True
      have "replace (drop 7 s) ''mock_token_'' [] = drop 18 s"
        using replace_mock_token [OF t] by simp
      then show ?thesis
        using Some True ne t
        by (simp add: authenticateAdmin_def startsWith_Bearer startsWith_mock_token
              split: option.splits)
    qed
  qed
qed

text \<open>
  Claim C9 fails at a credential that names no user. The gate throws
  "Usuario no encontrado", a message the privileged routes map to neither 401 nor 403:
  the response is 500. \<open>GET /api/auth/me\<close> answers 401 to the same credential.
\<close>

theorem authenticateAdmin_unknown_user_status:
  "authenticateAdmin exampleDb (Some ''Bearer mock_token_ghost'') = Inl UsuarioNoEncontrado
   \<and> putOrderStatus exampleDb (Some ''Bearer mock_token_ghost'') ''o1'' (Some ''shipped'')
       = (exampleDb, 500, None)
   \<and> getAuthMe exampleDb (Some ''Bearer mock_token_ghost'') = (401, None)"
  by (simp add: authenticateAdmin_def putOrderStatus_def getAuthMe_def startsWith_def
        getUser_def example_defs)

section \<open>Orders of a user\<close>

lemma getUserOrders_owner:
  "x \<in> set (getUserOrders d uid) \<Longrightarrow> o_userId (owi_order x) = Some uid"
  by (auto simp: getUserOrders_def)

lemma getUserOrders_headers:
  "map owi_order (getUserOrders d uid) = filter (\<lambda>ord. o_userId ord = Some uid) (orders d)"
  by (simp add: getUserOrders_def comp_def)

text \<open>
  Claim C10. A request to \<open>POST /api/orders\<close> appends at most one order row, and the row
  has no owning user, whatever the body says. The list of the orders of a user is the
  same before and after the request, an order created by the request is in no such list
  in any store, and a later change of status leaves the owners as they are.
\<close>

theorem postOrders_order_has_no_owner:
  assumes "postOrders numeric uuid now d body = (d', st, r)"
  shows "(orders d' = orders d \<or> (\<exists>ord. orders d' = orders d @ [ord] \<and> o_userId ord = None))
       \<and> (\<forall>uid. map owi_order (getUserOrders d' uid) = map owi_order (getUserOrders d uid))
       \<and> (\<forall>created. r = Some created \<longrightarrow>
             st = 201 \<and> o_userId (owi_order created) = None
             \<and> owi_order created \<in> set (orders d')
             \<and> (\<forall>d'' uid. owi_order created \<notin> set (map owi_order (getUserOrders d'' uid))))
       \<and> (\<forall>i s. map o_userId (orders (fst (updateOrderStatus d' i s))) = map o_userId (orders d'))"
proof -
  have upd: "map o_userId (orders (fst (updateOrderStatus d' i s))) = map o_userId (orders d')" for i s
    by (simp add: updateOrderStatus_def Let_def comp_def if_distrib cong: if_cong)
  have same: ?thesis if "d' = d" "r = None"
    using that upd by simp
  show ?thesis
  proof (cases "parseOrder body")
    case None
    then have "d' = d" "r = None"
      using assms by (simp_all add: postOrders_def)
    then show ?thesis
      by (rule same)
  next
    case (Some a)
    obtain orderData items where a: "a = (orderData, items)"
      by (cases a)
    from createOrder_char [of numeric uuid now d orderData items]
    obtain d1 r1 where
      run: "createOrder numeric uuid now d orderData items = (d1, r1)"
      and tot: "case numeric (io_total orderData) of
                  None \<Rightarrow> d1 = d \<and> r1 = Inl DataException
                | Some t \<Rightarrow> orders d1 = orders d @ [orderRow (uuid 0) now orderData t]
                           \<and> (\<forall>res. r1 = Inr res \<longrightarrow> owi_order res = orderRow (uuid 0) now orderData t)"
      by (elim exE conjE)
    have d': "d' = d1"
      and r: "r = (case r1 of Inl e \<Rightarrow> None | Inr res \<Rightarrow> Some res)"
      and st: "st = (case r1 of Inl e \<Rightarrow> 400 | Inr res \<Rightarrow> 201)"
      using assms Some a run by (auto simp: postOrders_def split: sum.splits)
    show ?thesis
    proof (cases "numeric (io_total orderData)")
      case None
      then have "d' = d" "r = None"
        using tot d' r by simp_all
      then show ?thesis
        by (rule same)
    next
      case (Some t)
      let ?o = "orderRow (uuid 0) now orderData t"
      have o: "orders d1 = orders d @ [?o]"
        and w: "\<And>res. r1 = Inr res \<Longrightarrow> owi_order res = ?o"
        using tot Some by simp_all
      have none: "o_userId ?o = None"
        by (simp add: orderRow_def)
      have never: "?o \<notin> set (map owi_order (getUserOrders d'' uid))" for d'' uid
        using none by (simp add: getUserOrders_headers)
      have cr: "st = 201 \<and> o_userId (owi_order created) = None
                \<and> owi_order created \<in> set (orders d')
                \<and> (\<forall>d'' uid. owi_order created \<notin> set (map owi_order (getUserOrders d'' uid)))"
        if "r = Some created" for created
      proof -
        from that obtain "r1 = Inr created"
          using r by (cases r1) auto
        then show ?thesis
          using w [of created] st none never o d' by simp
      qed
      have l: "map owi_order (getUserOrders d' uid) = map owi_order (getUserOrders d uid)" for uid
        using o none d' by (simp add: getUserOrders_headers)
      have "\<exists>ord. orders d' = orders d @ [ord] \<and> o_userId ord = None"
        using o none d' by blast
      then show ?thesis
        using l cr upd by blast
    qed
  qed
qed

theorem postOrders_order_has_no_owner_witness:
  "\<exists>d' created. postOrders exampleNumeric exampleUuid 7 exampleDb exampleBody = (d', 201, Some created)
      \<and> b_userId exampleBody = Some ''u1''
      \<and> o_userId (owi_order created) = None
      \<and> owi_order created \<in> set (orders d')
      \<and> map owi_order (getUserOrders d' ''u1'') = [exampleOrderRow]"
proof -
  have p: "parseOrder exampleBody = Some (exampleOrder None, [exampleLine ''p1'' 2])"
    by (simp add: parseOrder_def parseOrderItem_def exampleBody_def exampleOrder_def exampleLine_def)
  obtain res where c: "snd (createOrder exampleNumeric exampleUuid 7 exampleDb (exampleOrder None)
                              [exampleLine ''p1'' 2]) = Inr res"
    by (simp add: createOrder_defs example_defs)
  obtain d' where run: "postOrders exampleNumeric exampleUuid 7 exampleDb exampleBody =
      (d', 201, Some res)"
    using c by (cases "createOrder exampleNumeric exampleUuid 7 exampleDb (exampleOrder None)
                         [exampleLine ''p1'' 2]")
      (simp add: postOrders_def p)
  have g: "map owi_order (getUserOrders exampleDb ''u1'') = [exampleOrderRow]"
    by (simp add: getUserOrders_def exampleDb_def exampleOrderRow_def)
  have b: "b_userId exampleBody = Some ''u1''"
    by (simp add: exampleBody_def)
  from postOrders_order_has_no_owner [OF run]
  have "o_userId (owi_order res) = None" "owi_order res \<in> set (orders d')"
       "map owi_order (getUserOrders d' ''u1'') = map owi_order (getUserOrders exampleDb ''u1'')"
    by simp_all
  then show ?thesis
    using run g b by (intro exI [of _ d'] exI [of _ res]) simp
qed

end
